theory Spec2Isabelle
  imports Main "HOL-Library.Word"
begin

unbundle bit_operations_syntax

section \<open>Machine types and constants\<close>

type_synonym u8 = "8 word"
type_synonym u16 = "16 word"
type_synonym u32 = "32 word"
type_synonym u64 = "64 word"

text \<open>
  A C function of the module either returns, or the process leaves defined behaviour
  (a division by zero, a null or dangling pointer, an access outside the object). The
  second is a value of the model: \<open>Inl\<close> of a \<open>trap\<close>.
\<close>

datatype trap = DivideByZero | NullPointer | OutOfBounds

text \<open>
  Modelled from the spec: the return codes of the host API header \<^verbatim>\<open>daq_common.h\<close>, which
  is not among the sources. Success is 0 (a timed-out wait, which returns 0, is a success
  with no message); the error codes are distinct negative numbers.
\<close>

definition DAQ_SUCCESS :: int where "DAQ_SUCCESS = 0"
definition DAQ_ERROR :: int where "DAQ_ERROR = - 1"
definition DAQ_ERROR_NOMEM :: int where "DAQ_ERROR_NOMEM = - 2"
definition DAQ_ERROR_NODEV :: int where "DAQ_ERROR_NODEV = - 3"
definition DAQ_ERROR_AGAIN :: int where "DAQ_ERROR_AGAIN = - 9"

text \<open>Constants of the module itself.\<close>

definition AF_PACKET_DEFAULT_BUFFER_SIZE :: u32 where "AF_PACKET_DEFAULT_BUFFER_SIZE = 128"
definition AF_PACKET_MAX_INTERFACES :: u32 where "AF_PACKET_MAX_INTERFACES = 32"
definition VLAN_TAG_LEN :: nat where "VLAN_TAG_LEN = 4"

text \<open>Constants of the kernel headers the module is compiled against.\<close>

definition ETH_ALEN :: nat where "ETH_ALEN = 6"
definition ETH_HLEN :: u32 where "ETH_HLEN = 14"
definition ETH_P_8021Q :: u16 where "ETH_P_8021Q = 0x8100"
definition IFNAMSIZ :: nat where "IFNAMSIZ = 16"
definition sizeof_sockaddr_ll :: u32 where "sizeof_sockaddr_ll = 20"
definition TPACKET_V2 :: u32 where "TPACKET_V2 = 1"
definition TP_STATUS_KERNEL :: u32 where "TP_STATUS_KERNEL = 0"
definition TP_STATUS_USER :: u32 where "TP_STATUS_USER = 1"
definition TP_STATUS_VLAN_VALID :: u32 where "TP_STATUS_VLAN_VALID = 16"
definition TP_STATUS_VLAN_TPID_VALID :: u32 where "TP_STATUS_VLAN_TPID_VALID = 64"
definition TP_STATUS_AVAILABLE :: u32 where "TP_STATUS_AVAILABLE = 0"
definition TP_STATUS_SEND_REQUEST :: u32 where "TP_STATUS_SEND_REQUEST = 1"
definition POLLERR :: u16 where "POLLERR = 0x8"
definition POLLHUP :: u16 where "POLLHUP = 0x10"
definition POLLNVAL :: u16 where "POLLNVAL = 0x20"
definition POLLRDHUP :: u16 where "POLLRDHUP = 0x2000"

definition vlan_offset :: nat where "vlan_offset = 2 * ETH_ALEN"

definition TPACKET_ALIGN :: "u32 \<Rightarrow> u32" where
  "TPACKET_ALIGN x = (x + 15) AND NOT 15"

section \<open>Data model\<close>

text \<open>The kernel-facing ring dimensions, \<^verbatim>\<open>struct tpacket_req\<close>.\<close>

record tpacket_req =
  tp_block_size :: u32
  tp_block_nr :: u32
  tp_frame_size :: u32
  tp_frame_nr :: u32

text \<open>
  The frame header the kernel shares with the module, \<^verbatim>\<open>struct tpacket2_hdr\<close>, and a
  ring slot of the mapped region: its header and its bytes, the latter indexed from the
  slot's address \<^verbatim>\<open>hdr.raw\<close>. The header fields are kept apart from the bytes.
\<close>

record tpacket2_hdr =
  tp_status :: u32
  tp_len :: u32
  tp_snaplen :: u32
  tp_mac :: u16
  tp_net :: u16
  tp_sec :: u32
  tp_nsec :: u32
  tp_vlan_tci :: u16
  tp_vlan_tpid :: u16

record slot =
  h2 :: tpacket2_hdr
  bytes :: "u8 list"

text \<open>
  \<^verbatim>\<open>AFPacketEntry\<close>: a pointer to an entry of a ring's array is its index (\<open>None\<close> is
  \<^verbatim>\<open>NULL\<close>); \<open>e_raw\<close> is the address \<^verbatim>\<open>hdr.raw\<close> of the slot, 0 after \<^verbatim>\<open>calloc\<close>.
\<close>

record AFPacketEntry =
  e_next :: "nat option"
  e_raw :: nat

record AFPacketRing =
  layout :: tpacket_req
  r_size :: u32
  r_start :: nat
  entries :: "AFPacketEntry list"
  cursor :: "nat option"

text \<open>
  \<^verbatim>\<open>AFPacketInstance\<close>. The instances of a context are a linked list built by insertion
  at the head; the model keeps them as a list in linked order. A pointer to an instance
  is its creation number: instance number \<open>r\<close> is the one \<open>r\<close> places before the end of
  the list, its \<^verbatim>\<open>next\<close> is number \<open>r - 1\<close>, and the oldest instance, number 0, has
  \<^verbatim>\<open>next = NULL\<close>.
\<close>

record AFPacketInstance =
  i_fd :: int
  tp_version :: u32
  tp_hdrlen :: u32
  rx_ring :: AFPacketRing
  tx_ring :: AFPacketRing
  i_name :: string
  i_index :: int
  peer :: "nat option"
  sll_protocol :: "u8 list"

definition deref :: "AFPacketInstance list \<Rightarrow> nat \<Rightarrow> AFPacketInstance option" where
  "deref is r = (if r < length is then Some (is ! (length is - 1 - r)) else None)"

definition update_inst ::
  "AFPacketInstance list \<Rightarrow> nat \<Rightarrow> (AFPacketInstance \<Rightarrow> AFPacketInstance) \<Rightarrow> AFPacketInstance list" where
  "update_inst is r f = (if r < length is then is[length is - 1 - r := f (is ! (length is - 1 - r))] else is)"

record AFPacketFanoutCfg =
  fanout_flags :: u16
  fanout_type :: u16
  enabled :: bool

text \<open>
  Modelled from the spec: the host API types of \<^verbatim>\<open>daq_common.h\<close> (packet header,
  statistics with one counter per verdict, message, state, the verdicts in the order the
  comments of \<^verbatim>\<open>verdict_translation_table\<close> give them).
\<close>

record DAQ_PktHdr =
  ts_sec :: u32
  ts_usec :: u32
  caplen :: u32
  pktlen :: u32
  ingress_index :: int
  egress_index :: int
  ingress_group :: int
  egress_group :: int
  flags :: u32
  opaque :: u32
  address_space_id :: u16

record DAQ_Stats =
  hw_packets_received :: u64
  hw_packets_dropped :: u64
  packets_received :: u64
  packets_filtered :: u64
  packets_injected :: u64
  verdicts :: "u64 list"

datatype DAQ_State = DAQ_STATE_UNINITIALIZED | DAQ_STATE_INITIALIZED | DAQ_STATE_STARTED | DAQ_STATE_STOPPED

datatype DAQ_Mode = DAQ_MODE_NONE | DAQ_MODE_PASSIVE | DAQ_MODE_INLINE | DAQ_MODE_READ_FILE

definition DAQ_PKTHDR_UNKNOWN :: int where "DAQ_PKTHDR_UNKNOWN = - 1"

definition DAQ_VERDICT_PASS :: u32 where "DAQ_VERDICT_PASS = 0"
definition DAQ_VERDICT_BLOCK :: u32 where "DAQ_VERDICT_BLOCK = 1"
definition DAQ_VERDICT_REPLACE :: u32 where "DAQ_VERDICT_REPLACE = 2"
definition DAQ_VERDICT_WHITELIST :: u32 where "DAQ_VERDICT_WHITELIST = 3"
definition DAQ_VERDICT_BLACKLIST :: u32 where "DAQ_VERDICT_BLACKLIST = 4"
definition DAQ_VERDICT_IGNORE :: u32 where "DAQ_VERDICT_IGNORE = 5"
definition DAQ_VERDICT_RETRY :: u32 where "DAQ_VERDICT_RETRY = 6"
definition MAX_DAQ_VERDICT :: u32 where "MAX_DAQ_VERDICT = 7"

text \<open>
  Pointers to the two scratch objects of the context. A message pointer is the context's
  own \<^verbatim>\<open>curr_msg\<close> or another message object, given with the descriptor pointer its
  \<^verbatim>\<open>msg\<close> field holds; a descriptor pointer is null, the context's \<^verbatim>\<open>curr_packet\<close> or
  another object.
\<close>

datatype desc_ptr = Null_Desc | Curr_Packet | Other_Desc

datatype msg_ptr = Null_Msg | Curr_Msg | Other_Msg desc_ptr

datatype DAQ_MsgType = DAQ_MSG_TYPE_NONE | DAQ_MSG_TYPE_PACKET

record DAQ_Msg =
  msg_type :: DAQ_MsgType
  msg :: desc_ptr

text \<open>
  \<^verbatim>\<open>AFPacketPktDesc\<close>. The entry pointer is modelled by the entry it points to (entries do
  not change once a ring is set up); the data pointer is the address of the slot and the
  offset of the first frame byte within it.
\<close>

record AFPacketPktDesc =
  d_instance :: "nat option"
  d_entry :: "AFPacketEntry option"
  d_data :: "nat \<times> nat"
  d_length :: u32
  pkthdr :: DAQ_PktHdr

text \<open>
  The compiled filter is a black box of the filter library: the model keeps the function
  \<^verbatim>\<open>sfbpf_filter\<close> computes with it from the captured bytes, the wire length and the
  capture length. \<open>None\<close> is \<^verbatim>\<open>bf_insns = NULL\<close>.
\<close>

type_synonym sfbpf_program = "u8 list \<Rightarrow> u32 \<Rightarrow> u32 \<Rightarrow> u32"

record AFPacket_Context =
  device :: string
  snaplen :: int
  timeout :: int
  c_size :: u32
  debug :: bool
  instances :: "AFPacketInstance list"
  intf_count :: u32
  fcode :: "sfbpf_program option"
  break_loop :: bool
  stats :: DAQ_Stats
  state :: DAQ_State
  errbuf :: string
  fanout_cfg :: AFPacketFanoutCfg
  curr_instance :: "nat option"
  curr_msg :: DAQ_Msg
  curr_packet :: AFPacketPktDesc

text \<open>What \<^verbatim>\<open>calloc\<close> returns: objects with every field zero.\<close>

definition zero_layout :: tpacket_req where
  "zero_layout = \<lparr>tp_block_size = 0, tp_block_nr = 0, tp_frame_size = 0, tp_frame_nr = 0\<rparr>"

definition zero_ring :: AFPacketRing where
  "zero_ring = \<lparr>layout = zero_layout, r_size = 0, r_start = 0, entries = [], cursor = None\<rparr>"

definition zero_pkthdr :: DAQ_PktHdr where
  "zero_pkthdr = \<lparr>ts_sec = 0, ts_usec = 0, caplen = 0, pktlen = 0, ingress_index = 0,
     egress_index = 0, ingress_group = 0, egress_group = 0, flags = 0, opaque = 0,
     address_space_id = 0\<rparr>"

definition zero_stats :: DAQ_Stats where
  "zero_stats = \<lparr>hw_packets_received = 0, hw_packets_dropped = 0, packets_received = 0,
     packets_filtered = 0, packets_injected = 0, verdicts = replicate (unat MAX_DAQ_VERDICT) 0\<rparr>"

definition zero_context :: AFPacket_Context where
  "zero_context = \<lparr>device = [], snaplen = 0, timeout = 0, c_size = 0, debug = False,
     instances = [], intf_count = 0, fcode = None, break_loop = False, stats = zero_stats,
     state = DAQ_STATE_UNINITIALIZED, errbuf = [],
     fanout_cfg = \<lparr>fanout_flags = 0, fanout_type = 0, enabled = False\<rparr>,
     curr_instance = None,
     curr_msg = \<lparr>msg_type = DAQ_MSG_TYPE_NONE, msg = Null_Desc\<rparr>,
     curr_packet = \<lparr>d_instance = None, d_entry = None, d_data = (0, 0), d_length = 0,
       pkthdr = zero_pkthdr\<rparr>\<rparr>"

section \<open>Ring negotiation\<close>

text \<open>
  The loop \<^verbatim>\<open>while (tp_block_size < tp_frame_size) tp_block_size <<= 1;\<close> of
  \<^verbatim>\<open>calculate_layout\<close>. It need not end: the value \<open>None\<close> is a loop that runs forever.
\<close>

partial_function (option) grow_block :: "u32 \<Rightarrow> u32 \<Rightarrow> u32 option" where
  "grow_block frame_size block_size =
     (if block_size < frame_size then grow_block frame_size (push_bit 1 block_size)
      else Some block_size)"

declare grow_block.simps [code]

text \<open>
  \<^verbatim>\<open>calculate_layout\<close>, up to the loop and after it. \<open>page_size\<close> is what
  \<^verbatim>\<open>getpagesize()\<close> returns. The result is the return code, the context (whose error buffer
  the function may write) and the layout it filled in.
\<close>

definition layout_frame_size :: "AFPacket_Context \<Rightarrow> u32 \<Rightarrow> u32" where
  "layout_frame_size afpc hdrlen =
     (let tp_hdrlen_sll = TPACKET_ALIGN hdrlen + sizeof_sockaddr_ll;
          netoff = TPACKET_ALIGN (tp_hdrlen_sll + ETH_HLEN) + of_nat VLAN_TAG_LEN
      in TPACKET_ALIGN (netoff - ETH_HLEN + word_of_int (snaplen afpc)))"

definition layout_counts ::
  "AFPacket_Context \<Rightarrow> tpacket_req \<Rightarrow> trap + int \<times> AFPacket_Context \<times> tpacket_req" where
  "layout_counts afpc lay =
     (if tp_frame_size lay = 0 then Inl DivideByZero
      else
        let frames_per_block = tp_block_size lay div tp_frame_size lay
        in if frames_per_block = 0
           then Inr (DAQ_ERROR, afpc\<lparr>errbuf := ''Invalid frames per block''\<rparr>, lay)
           else
             let lay1 = lay\<lparr>tp_frame_nr := c_size afpc div tp_frame_size lay\<rparr>;
                 lay2 = lay1\<lparr>tp_block_nr := tp_frame_nr lay1 div frames_per_block\<rparr>;
                 lay3 = lay2\<lparr>tp_frame_nr := tp_block_nr lay2 * frames_per_block\<rparr>
             in Inr (DAQ_SUCCESS, afpc, lay3))"

definition calculate_layout ::
  "int \<Rightarrow> AFPacket_Context \<Rightarrow> tpacket_req \<Rightarrow> u32 \<Rightarrow> nat
     \<Rightarrow> (trap + int \<times> AFPacket_Context \<times> tpacket_req) option" where
  "calculate_layout page_size afpc lay hdrlen order =
     (let lay1 = lay\<lparr>tp_frame_size := layout_frame_size afpc hdrlen\<rparr>;
          lay2 = lay1\<lparr>tp_block_size := word_of_int (page_size * 2 ^ order)\<rparr>
      in case grow_block (tp_frame_size lay2) (tp_block_size lay2) of
           None \<Rightarrow> None
         | Some bs \<Rightarrow> Some (layout_counts afpc (lay2\<lparr>tp_block_size := bs\<rparr>)))"

section \<open>Ring descriptor build\<close>






section \<open>Initialisation: the interface string and the buffer budget\<close>

text \<open>
  What the host hands to \<^verbatim>\<open>afpacket_daq_initialize\<close> through the configuration getters,
  and what the operating system answers: whether the two allocations of the function
  succeed, what \<^verbatim>\<open>create_instance\<close> gets for a device name (a descriptor and an interface
  index, or the message of the call that failed), the environment variable
  \<^verbatim>\<open>AF_PACKET_BUFFER_SIZE\<close>, the C library's \<^verbatim>\<open>strtoul\<close> in base 10, and whether the
  kernel headers define \<^verbatim>\<open>PACKET_FANOUT\<close> and \<^verbatim>\<open>PACKET_FANOUT_QM\<close>.
\<close>

record DAQ_ModuleConfig =
  cfg_input :: string
  cfg_snaplen :: int
  cfg_timeout :: u32
  cfg_mode :: DAQ_Mode
  cfg_variables :: "(string \<times> string option) list"

record os_env =
  calloc_context_ok :: bool
  strdup_device_ok :: bool
  open_interface :: "string \<Rightarrow> string + int \<times> int"
  getenv_buffer_size :: "string option"
  strtoul :: "string \<Rightarrow> nat"
  have_PACKET_FANOUT :: bool
  have_PACKET_FANOUT_QM :: bool

definition PACKET_FANOUT_HASH :: u16 where "PACKET_FANOUT_HASH = 0"
definition PACKET_FANOUT_LB :: u16 where "PACKET_FANOUT_LB = 1"
definition PACKET_FANOUT_CPU :: u16 where "PACKET_FANOUT_CPU = 2"
definition PACKET_FANOUT_ROLLOVER :: u16 where "PACKET_FANOUT_ROLLOVER = 3"
definition PACKET_FANOUT_RND :: u16 where "PACKET_FANOUT_RND = 4"
definition PACKET_FANOUT_QM :: u16 where "PACKET_FANOUT_QM = 5"
definition PACKET_FANOUT_FLAG_ROLLOVER :: u16 where "PACKET_FANOUT_FLAG_ROLLOVER = 0x1000"
definition PACKET_FANOUT_FLAG_DEFRAG :: u16 where "PACKET_FANOUT_FLAG_DEFRAG = 0x8000"

text \<open>
  \<^verbatim>\<open>create_instance\<close>: a zeroed instance with its name, descriptor and interface index, the
  protocol of its link address set to \<^verbatim>\<open>htons(ETH_P_ALL)\<close>; or \<^verbatim>\<open>NULL\<close> with a message.
\<close>

definition create_instance :: "os_env \<Rightarrow> string \<Rightarrow> string + AFPacketInstance" where
  "create_instance os dev =
     (case open_interface os dev of
        Inl e \<Rightarrow> Inl e
      | Inr (fd, ifindex) \<Rightarrow>
          Inr \<lparr>i_fd = fd, tp_version = 0, tp_hdrlen = 0, rx_ring = zero_ring, tx_ring = zero_ring,
               i_name = dev, i_index = ifindex, peer = None, sll_protocol = [0x00, 0x03]\<rparr>)"

text \<open>
  \<^verbatim>\<open>create_bridge\<close>. The loop walks the whole list and keeps, for each of the two names, the
  last instance of that name it meets; an instance of the first name is never taken for
  the second.
\<close>

fun bridge_scan ::
  "AFPacketInstance list \<Rightarrow> string \<Rightarrow> string \<Rightarrow> nat option \<times> nat option \<Rightarrow> nat option \<times> nat option" where
  "bridge_scan [] device_name1 device_name2 (peer1, peer2) = (peer1, peer2)"
| "bridge_scan (inst # rest) device_name1 device_name2 (peer1, peer2) =
     (if i_name inst = device_name1
      then bridge_scan rest device_name1 device_name2 (Some (length rest), peer2)
      else if i_name inst = device_name2
      then bridge_scan rest device_name1 device_name2 (peer1, Some (length rest))
      else bridge_scan rest device_name1 device_name2 (peer1, peer2))"

definition create_bridge :: "AFPacket_Context \<Rightarrow> string \<Rightarrow> string \<Rightarrow> int \<times> AFPacket_Context" where
  "create_bridge afpc device_name1 device_name2 =
     (case bridge_scan (instances afpc) device_name1 device_name2 (None, None) of
        (Some peer1, Some peer2) \<Rightarrow>
          (let is1 = update_inst (instances afpc) peer1 (\<lambda>i. i\<lparr>peer := Some peer2\<rparr>);
               is2 = update_inst is1 peer2 (\<lambda>i. i\<lparr>peer := Some peer1\<rparr>)
           in (DAQ_SUCCESS, afpc\<lparr>instances := is2\<rparr>))
      | _ \<Rightarrow> (DAQ_ERROR_NODEV, afpc))"

text \<open>
  The results of the initialisation steps: a trap, an error return (the code and the
  message left in the caller's buffer; the context is freed), or the value.
\<close>

type_synonym 'a init_result = "trap + (int \<times> string) + 'a"

text \<open>
  The \<^verbatim>\<open>while (*dev != '\0')\<close> loop of \<^verbatim>\<open>afpacket_daq_initialize\<close> over the rest \<open>dev\<close> of
  the device string, with the counter \<^verbatim>\<open>num_intfs\<close>.
\<close>

function parse_devices ::
  "os_env \<Rightarrow> DAQ_Mode \<Rightarrow> string \<Rightarrow> AFPacket_Context \<Rightarrow> nat \<Rightarrow> (AFPacket_Context \<times> nat) init_result" where
  "parse_devices os mode dev afpc num_intfs =
     (if dev = [] then Inr (Inr (afpc, num_intfs))
      else
        let len = length (takeWhile (\<lambda>c. c \<noteq> CHR '':'') dev)
        in if len \<ge> IFNAMSIZ then Inr (Inl (DAQ_ERROR, ''Interface name too long!''))
           else if len \<noteq> 0 then
             (let afpc1 = afpc\<lparr>intf_count := intf_count afpc + 1\<rparr>
              in if intf_count afpc1 \<ge> AF_PACKET_MAX_INTERFACES
                 then Inr (Inl (DAQ_ERROR, ''Using more than 32 interfaces is not supported!''))
                 else (case create_instance os (take len dev) of
                         Inl e \<Rightarrow> Inr (Inl (DAQ_ERROR, e))
                       | Inr inst \<Rightarrow>
                           (let afpc2 = afpc1\<lparr>instances := inst # instances afpc1\<rparr>;
                                n = num_intfs + 1
                            in if mode \<noteq> DAQ_MODE_PASSIVE
                               then
                                 if n = 2
                                 then (case instances afpc2 of
                                         i2 # i1 # rest \<Rightarrow>
                                           (case create_bridge afpc2 (i_name i1) (i_name i2) of
                                              (rc, afpc3) \<Rightarrow>
                                                if rc \<noteq> DAQ_SUCCESS
                                                then Inr (Inl (DAQ_ERROR, ''Could not create the bridge!''))
                                                else parse_devices os mode (drop len dev) afpc3 0)
                                       | _ \<Rightarrow> Inl NullPointer)
                                 else if n > 2 then Inr (Inr (afpc2, n))
                                 else parse_devices os mode (drop len dev) afpc2 n
                               else parse_devices os mode (drop len dev) afpc2 n)))
           else parse_devices os mode (drop 1 dev) afpc num_intfs)"
  by pat_completeness auto
termination
  by (relation "measure (\<lambda>(os, mode, dev, afpc, n). length dev)") auto

declare parse_devices.simps [simp del]

text \<open>The loop over the configuration variables; \<open>size_str\<close> is the pointer it may set.\<close>

fun scan_variables ::
  "os_env \<Rightarrow> (string \<times> string option) list \<Rightarrow> string option \<Rightarrow> AFPacket_Context
     \<Rightarrow> (int \<times> string) + string option \<times> AFPacket_Context" where
  "scan_variables os [] size_str afpc = Inr (size_str, afpc)"
| "scan_variables os ((varKey, varValue) # vars) size_str afpc =
     (if varKey = ''buffer_size_mb'' then scan_variables os vars varValue afpc
      else if varKey = ''debug'' then scan_variables os vars size_str (afpc\<lparr>debug := True\<rparr>)
      else if have_PACKET_FANOUT os \<and> varKey = ''fanout_type'' then
        (case varValue of
           None \<Rightarrow> Inl (DAQ_ERROR, ''fanout_type requires an argument!'')
         | Some v \<Rightarrow>
             (let ty = (if v = ''hash'' then Some PACKET_FANOUT_HASH
                        else if v = ''lb'' then Some PACKET_FANOUT_LB
                        else if v = ''cpu'' then Some PACKET_FANOUT_CPU
                        else if v = ''rollover'' then Some PACKET_FANOUT_ROLLOVER
                        else if v = ''rnd'' then Some PACKET_FANOUT_RND
                        else if have_PACKET_FANOUT_QM os \<and> v = ''qm'' then Some PACKET_FANOUT_QM
                        else None)
              in case ty of
                   None \<Rightarrow> Inl (DAQ_ERROR, ''Unrecognized argument for fanout_type!'')
                 | Some t \<Rightarrow>
                     scan_variables os vars size_str
                       (afpc\<lparr>fanout_cfg := (fanout_cfg afpc)\<lparr>fanout_type := t, enabled := True\<rparr>\<rparr>)))
      else if have_PACKET_FANOUT os \<and> varKey = ''fanout_flag'' then
        (case varValue of
           None \<Rightarrow> Inl (DAQ_ERROR, ''fanout_flag requires an argument!'')
         | Some v \<Rightarrow>
             if v = ''rollover''
             then scan_variables os vars size_str
                    (afpc\<lparr>fanout_cfg := (fanout_cfg afpc)
                       \<lparr>fanout_flags := fanout_flags (fanout_cfg afpc) OR PACKET_FANOUT_FLAG_ROLLOVER\<rparr>\<rparr>)
             else if v = ''defrag''
             then scan_variables os vars size_str
                    (afpc\<lparr>fanout_cfg := (fanout_cfg afpc)
                       \<lparr>fanout_flags := fanout_flags (fanout_cfg afpc) OR PACKET_FANOUT_FLAG_DEFRAG\<rparr>\<rparr>)
             else Inl (DAQ_ERROR, ''Unrecognized argument for fanout_flag!''))
      else scan_variables os vars size_str afpc)"

text \<open>
  The total buffer in bytes, a 32-bit product, and the number of rings, summed over the
  instances in list order.
\<close>

definition buffer_bytes :: "os_env \<Rightarrow> string option \<Rightarrow> u32" where
  "buffer_bytes os size_str =
     (let size_str1 = (case size_str of None \<Rightarrow> getenv_buffer_size os | Some s \<Rightarrow> Some s);
          sz = (case size_str1 of
                  Some s \<Rightarrow> if s \<noteq> ''max'' then of_nat (strtoul os s) else AF_PACKET_DEFAULT_BUFFER_SIZE
                | None \<Rightarrow> AF_PACKET_DEFAULT_BUFFER_SIZE)
      in sz * 1024 * 1024)"

fun count_rings :: "AFPacketInstance list \<Rightarrow> int" where
  "count_rings [] = 0"
| "count_rings (inst # rest) = (if peer inst \<noteq> None then 2 else 1) + count_rings rest"

text \<open>\<^verbatim>\<open>strstr(haystack, needle) != NULL\<close>.\<close>

fun strstr_found :: "string \<Rightarrow> string \<Rightarrow> bool" where
  "strstr_found [] needle = (needle = [])"
| "strstr_found (c # cs) needle = (take (length needle) (c # cs) = needle \<or> strstr_found cs needle)"

text \<open>\<^verbatim>\<open>afpacket_daq_initialize\<close>.\<close>

definition afpacket_daq_initialize :: "os_env \<Rightarrow> DAQ_ModuleConfig \<Rightarrow> AFPacket_Context init_result" where
  "afpacket_daq_initialize os config =
     (if \<not> calloc_context_ok os
      then Inr (Inl (DAQ_ERROR_NOMEM, ''Could not allocate memory for the new AFPacket context!''))
      else if \<not> strdup_device_ok os
      then Inr (Inl (DAQ_ERROR_NOMEM, ''Could not allocate memory for the device string!''))
      else
        let afpc = zero_context\<lparr>device := cfg_input config, snaplen := cfg_snaplen config,
                     timeout := (if cfg_timeout config > 0 then sint (cfg_timeout config) else - 1)\<rparr>;
            dev = device afpc
        in if (dev \<noteq> [] \<and> hd dev = CHR '':'')
              \<or> (length dev > 0 \<and> last dev = CHR '':'')
              \<or> (cfg_mode config = DAQ_MODE_PASSIVE \<and> strstr_found dev ''::'')
           then Inr (Inl (DAQ_ERROR, ''Invalid interface specification!''))
           else
             (case parse_devices os (cfg_mode config) dev afpc 0 of
                Inl t \<Rightarrow> Inl t
              | Inr (Inl e) \<Rightarrow> Inr (Inl e)
              | Inr (Inr (afpc1, num_intfs)) \<Rightarrow>
                  if instances afpc1 = [] \<or> (cfg_mode config \<noteq> DAQ_MODE_PASSIVE \<and> num_intfs \<noteq> 0)
                  then Inr (Inl (DAQ_ERROR, ''Invalid interface specification!''))
                  else
                    (case scan_variables os (cfg_variables config) None afpc1 of
                       Inl e \<Rightarrow> Inr (Inl e)
                     | Inr (size_str, afpc2) \<Rightarrow>
                         (let sz = buffer_bytes os size_str;
                              num_rings = count_rings (instances afpc2)
                          in if num_rings = 0 then Inl DivideByZero
                             else Inr (Inr (afpc2\<lparr>c_size := sz div word_of_int num_rings,
                                    curr_instance := Some (length (instances afpc2) - 1),
                                    state := DAQ_STATE_INITIALIZED\<rparr>))))))"

section \<open>The running engine\<close>

text \<open>
  The world outside the context: the mapped ring memory (the slot at each slot address),
  what the coming calls of \<^verbatim>\<open>poll\<close> will return, whether the coming calls of \<^verbatim>\<open>send\<close> and
  \<^verbatim>\<open>sendto\<close> succeed (they do once the list is used up), the frames handed to the kernel
  for transmission (interface index and bytes, in order), and whether the kernel headers
  define \<^verbatim>\<open>TP_STATUS_VLAN_VALID\<close> and \<^verbatim>\<open>TP_STATUS_VLAN_TPID_VALID\<close>.

  A call of \<^verbatim>\<open>poll\<close> is interrupted by a signal (whose handler may have called
  \<^verbatim>\<open>daq_breakloop\<close>: the flag), fails otherwise, times out, or returns a positive count with
  the \<^verbatim>\<open>revents\<close> of the descriptors, after the kernel has filled the given slots. When the
  list is used up the call never returns.
\<close>

datatype poll_event =
    Poll_Interrupted bool
  | Poll_Failed
  | Poll_Timeout
  | Poll_Ready "u16 list" "(nat \<times> slot) list"

record world =
  frames :: "nat \<Rightarrow> slot option"
  polls :: "poll_event list"
  sends :: "bool list"
  wire :: "(int \<times> u8 list) list"
  have_TP_STATUS_VLAN_VALID :: bool
  have_TP_STATUS_VLAN_TPID_VALID :: bool

definition sys_send :: "world \<Rightarrow> bool \<times> world" where
  "sys_send w = (case sends w of [] \<Rightarrow> (True, w) | ok # rest \<Rightarrow> (ok, w\<lparr>sends := rest\<rparr>))"

text \<open>
  Reading \<open>len\<close> bytes at a data pointer (slot address and offset) and writing bytes at an
  offset of a slot. A read that leaves the slot is \<open>None\<close>.
\<close>

definition load_bytes :: "world \<Rightarrow> nat \<times> nat \<Rightarrow> nat \<Rightarrow> u8 list option" where
  "load_bytes w p len =
     (case frames w (fst p) of
        None \<Rightarrow> None
      | Some s \<Rightarrow> if snd p + len \<le> length (bytes s) then Some (take len (drop (snd p) (bytes s))) else None)"

definition store_bytes :: "u8 list \<Rightarrow> nat \<Rightarrow> u8 list \<Rightarrow> u8 list" where
  "store_bytes bs off new = take off bs @ new @ drop (off + length new) bs"

text \<open>The two bytes \<^verbatim>\<open>htons(x)\<close> leaves in memory: network byte order.\<close>

definition htons :: "u16 \<Rightarrow> u8 list" where
  "htons x = [ucast (drop_bit 8 x), ucast x]"

text \<open>\<^verbatim>\<open>afpacket_transmit_packet\<close>.\<close>

definition afpacket_transmit_packet ::
  "AFPacket_Context \<Rightarrow> world \<Rightarrow> nat option \<Rightarrow> nat \<times> nat \<Rightarrow> u32
     \<Rightarrow> trap + int \<times> AFPacket_Context \<times> world" where
  "afpacket_transmit_packet afpc w egress packet_data len =
     (case egress of
        None \<Rightarrow> Inr (DAQ_SUCCESS, afpc, w)
      | Some r \<Rightarrow>
          (case deref (instances afpc) r of
             None \<Rightarrow> Inl OutOfBounds
           | Some eg \<Rightarrow>
               if r_size (tx_ring eg) \<noteq> 0
               then
                 (case cursor (tx_ring eg) of
                    None \<Rightarrow> Inl NullPointer
                  | Some c \<Rightarrow>
                      if length (entries (tx_ring eg)) \<le> c then Inl OutOfBounds
                      else
                        let entry = entries (tx_ring eg) ! c
                        in (case frames w (e_raw entry) of
                              None \<Rightarrow> Inl OutOfBounds
                            | Some txs \<Rightarrow>
                                if tp_status (h2 txs) \<noteq> TP_STATUS_AVAILABLE
                                then Inr (DAQ_ERROR_AGAIN, afpc, w)
                                else
                                  (case load_bytes w packet_data (unat len) of
                                     None \<Rightarrow> Inl OutOfBounds
                                   | Some pkt \<Rightarrow>
                                       let off = unat (TPACKET_ALIGN (tp_hdrlen eg))
                                       in if length (bytes txs) < off + unat len then Inl OutOfBounds
                                          else
                                            let txs1 = txs\<lparr>bytes := store_bytes (bytes txs) off pkt,
                                                         h2 := (h2 txs)\<lparr>tp_len := len,
                                                                 tp_status := TP_STATUS_SEND_REQUEST\<rparr>\<rparr>;
                                                w1 = w\<lparr>frames := (frames w)(e_raw entry \<mapsto> txs1)\<rparr>
                                            in (case sys_send w1 of
                                                  (ok, w2) \<Rightarrow>
                                                    if ok
                                                    then Inr (DAQ_SUCCESS,
                                                           afpc\<lparr>instances := update_inst (instances afpc) r
                                                             (\<lambda>i. i\<lparr>tx_ring := (tx_ring i)\<lparr>cursor := e_next entry\<rparr>\<rparr>)\<rparr>,
                                                           w2\<lparr>wire := wire w2 @ [(i_index eg, pkt)]\<rparr>)
                                                    else Inr (DAQ_ERROR, afpc, w2)))))
               else
                 (case load_bytes w (fst packet_data, snd packet_data + 12) 2 of
                    None \<Rightarrow> Inl OutOfBounds
                  | Some h_proto \<Rightarrow>
                      let afpc1 = afpc\<lparr>instances := update_inst (instances afpc) r
                                    (\<lambda>i. i\<lparr>sll_protocol := h_proto\<rparr>)\<rparr>
                      in (case load_bytes w packet_data (unat len) of
                            None \<Rightarrow> Inl OutOfBounds
                          | Some pkt \<Rightarrow>
                              (case sys_send w of
                                 (ok, w2) \<Rightarrow>
                                   if ok
                                   then Inr (DAQ_SUCCESS, afpc1, w2\<lparr>wire := wire w2 @ [(i_index eg, pkt)]\<rparr>)
                                   else Inr (DAQ_ERROR, afpc1, w2))))))"

text \<open>\<^verbatim>\<open>afpacket_free_packet\<close>: the slot of the descriptor's entry goes back to the kernel.\<close>

definition afpacket_free_packet :: "world \<Rightarrow> AFPacketPktDesc \<Rightarrow> trap + world" where
  "afpacket_free_packet w desc =
     (case d_entry desc of
        None \<Rightarrow> Inl NullPointer
      | Some entry \<Rightarrow>
          (case frames w (e_raw entry) of
             None \<Rightarrow> Inl OutOfBounds
           | Some s \<Rightarrow>
               Inr (w\<lparr>frames := (frames w)(e_raw entry \<mapsto> s\<lparr>h2 := (h2 s)\<lparr>tp_status := TP_STATUS_KERNEL\<rparr>\<rparr>)\<rparr>)))"

text \<open>
  \<^verbatim>\<open>afpacket_find_packet\<close>: the do-while loop from the instance \<open>inst\<close>, with \<open>cref\<close> the
  unchanged \<^verbatim>\<open>afpc->curr_instance\<close>.
\<close>

function find_loop ::
  "AFPacket_Context \<Rightarrow> world \<Rightarrow> nat \<Rightarrow> nat \<Rightarrow> trap + AFPacketEntry option \<times> AFPacket_Context" where
  "find_loop afpc w cref inst =
     (if length (instances afpc) \<le> cref \<or> length (instances afpc) \<le> inst then Inl OutOfBounds
      else
        let nxt = (if 0 < inst then inst - 1 else length (instances afpc) - 1)
        in (case deref (instances afpc) nxt of
              None \<Rightarrow> Inl OutOfBounds
            | Some instance \<Rightarrow>
                (case cursor (rx_ring instance) of
                   None \<Rightarrow> Inl NullPointer
                 | Some c \<Rightarrow>
                     if length (entries (rx_ring instance)) \<le> c then Inl OutOfBounds
                     else
                       let entry = entries (rx_ring instance) ! c
                       in (case frames w (e_raw entry) of
                             None \<Rightarrow> Inl OutOfBounds
                           | Some s \<Rightarrow>
                               if tp_status (h2 s) AND TP_STATUS_USER \<noteq> 0
                               then Inr (Some entry,
                                      afpc\<lparr>curr_instance := Some nxt,
                                           instances := update_inst (instances afpc) nxt
                                             (\<lambda>i. i\<lparr>rx_ring := (rx_ring i)\<lparr>cursor := e_next entry\<rparr>\<rparr>)\<rparr>)
                               else if nxt \<noteq> cref then find_loop afpc w cref nxt
                               else Inr (None, afpc)))))"
  by pat_completeness auto
termination
  by (relation "measure (\<lambda>(afpc, w, cref, inst).
        if cref < inst then inst - cref else inst + length (instances afpc) - cref)") auto

declare find_loop.simps [simp del]

definition afpacket_find_packet ::
  "AFPacket_Context \<Rightarrow> world \<Rightarrow> trap + AFPacketEntry option \<times> AFPacket_Context" where
  "afpacket_find_packet afpc w =
     (case curr_instance afpc of
        None \<Rightarrow> Inl NullPointer
      | Some cref \<Rightarrow> find_loop afpc w cref cref)"

text \<open>\<^verbatim>\<open>afpacket_daq_breakloop\<close>, the one entry point a signal handler may call.\<close>

definition afpacket_daq_breakloop :: "AFPacket_Context \<Rightarrow> int \<times> AFPacket_Context" where
  "afpacket_daq_breakloop afpc = (DAQ_SUCCESS, afpc\<lparr>break_loop := True\<rparr>)"

text \<open>
  \<^verbatim>\<open>afpacket_wait_for_packet\<close>. The loop over the \<^verbatim>\<open>revents\<close> stops at the first descriptor
  with one of the four bad bits; when neither of the hang-up bits nor the error bit is
  set there, the bit that is set is \<^verbatim>\<open>POLLNVAL\<close>.
\<close>

fun check_revents :: "u16 list \<Rightarrow> string option" where
  "check_revents [] = None"
| "check_revents (revents # rest) =
     (if revents AND (POLLHUP OR POLLRDHUP OR POLLERR OR POLLNVAL) \<noteq> 0
      then Some (if revents AND (POLLHUP OR POLLRDHUP) \<noteq> 0 then ''Hang-up on a packet socket''
                 else if revents AND POLLERR \<noteq> 0 then ''Encountered error condition on a packet socket''
                 else ''Invalid polling request on a packet socket'')
      else check_revents rest)"

definition afpacket_wait_for_packet ::
  "AFPacket_Context \<Rightarrow> world \<Rightarrow> (int \<times> AFPacket_Context \<times> world) option" where
  "afpacket_wait_for_packet afpc w =
     (case polls w of
        [] \<Rightarrow> None
      | ev # rest \<Rightarrow>
          (case ev of
             Poll_Interrupted brk \<Rightarrow>
               Some (DAQ_ERROR_AGAIN, (if brk then snd (afpacket_daq_breakloop afpc) else afpc),
                     w\<lparr>polls := rest\<rparr>)
           | Poll_Failed \<Rightarrow> Some (DAQ_ERROR, afpc\<lparr>errbuf := ''Poll failed''\<rparr>, w\<lparr>polls := rest\<rparr>)
           | Poll_Timeout \<Rightarrow> Some (0, afpc, w\<lparr>polls := rest\<rparr>)
           | Poll_Ready revents filled \<Rightarrow>
               (let w1 = w\<lparr>polls := rest, frames := fold (\<lambda>kv m. m(fst kv \<mapsto> snd kv)) filled (frames w)\<rparr>
                in case check_revents (take (unat (intf_count afpc)) revents) of
                     Some e \<Rightarrow> Some (DAQ_ERROR, afpc\<lparr>errbuf := e\<rparr>, w1)
                   | None \<Rightarrow> Some (1, afpc, w1))))"

text \<open>The loop \<^verbatim>\<open>while ((ret = afpacket_wait_for_packet(afpc)) == DAQ_ERROR_AGAIN);\<close>.\<close>

function wait_retry :: "AFPacket_Context \<Rightarrow> world \<Rightarrow> (int \<times> AFPacket_Context \<times> world) option" where
  "wait_retry afpc w =
     (case afpacket_wait_for_packet afpc w of
        None \<Rightarrow> None
      | Some (ret, afpc1, w1) \<Rightarrow>
          if ret = DAQ_ERROR_AGAIN then wait_retry afpc1 w1 else Some (ret, afpc1, w1))"
  by pat_completeness auto
termination
  by (relation "measure (\<lambda>(afpc, w). length (polls w))")
     (auto simp: afpacket_wait_for_packet_def Let_def
           split: list.splits poll_event.splits option.splits if_splits)

declare wait_retry.simps [simp del]

text \<open>
  The reconstruction of a stripped VLAN tag in \<^verbatim>\<open>afpacket_daq_msg_receive\<close>, for the slot
  \<open>s\<close> of \<open>entry\<close> with the frame at offset \<open>data\<close>: the new world, data offset, capture
  length and wire length. The twelve address bytes move into the four bytes before the
  frame; a frame that does not leave these four bytes within its slot, or whose first
  twelve bytes end outside it, takes the access out of the slot.
\<close>

definition reconstruct_vlan ::
  "world \<Rightarrow> AFPacketInstance \<Rightarrow> AFPacketEntry \<Rightarrow> slot \<Rightarrow> nat \<Rightarrow> u32 \<Rightarrow> u32
     \<Rightarrow> trap + world \<times> nat \<times> u32 \<times> u32" where
  "reconstruct_vlan w instance entry s data snaplen0 len0 =
     (if tp_version instance = TPACKET_V2
         \<and> (tp_vlan_tci (h2 s) \<noteq> 0
              \<or> (have_TP_STATUS_VLAN_VALID w \<and> tp_status (h2 s) AND TP_STATUS_VLAN_VALID \<noteq> 0))
         \<and> of_nat vlan_offset \<le> snaplen0
      then
        if data < VLAN_TAG_LEN \<or> length (bytes s) < data + vlan_offset then Inl OutOfBounds
        else
          let data1 = data - VLAN_TAG_LEN;
              moved = store_bytes (bytes s) data1 (take vlan_offset (drop data (bytes s)));
              tpid = (if have_TP_STATUS_VLAN_TPID_VALID w \<and> tp_vlan_tpid (h2 s) \<noteq> 0
                         \<and> tp_status (h2 s) AND TP_STATUS_VLAN_TPID_VALID \<noteq> 0
                      then htons (tp_vlan_tpid (h2 s)) else htons ETH_P_8021Q);
              tagged = store_bytes moved (data1 + vlan_offset) (tpid @ htons (tp_vlan_tci (h2 s)))
          in Inr (w\<lparr>frames := (frames w)(e_raw entry \<mapsto> s\<lparr>bytes := tagged\<rparr>)\<rparr>,
                  data1, snaplen0 + of_nat VLAN_TAG_LEN, len0 + of_nat VLAN_TAG_LEN)
      else Inr (w, data, snaplen0, len0))"

text \<open>
  The body of the receive loop for a slot \<^verbatim>\<open>afpacket_find_packet\<close> has claimed: the loop
  goes on to the next frame, or \<^verbatim>\<open>afpacket_daq_msg_receive\<close> returns a code and leaves a
  message pointer in \<^verbatim>\<open>*msgptr\<close>. The filter sees the captured bytes that lie in the slot.
\<close>

datatype step = Next_Frame | Returned int msg_ptr

definition receive_frame ::
  "AFPacket_Context \<Rightarrow> world \<Rightarrow> AFPacketEntry \<Rightarrow> trap + step \<times> AFPacket_Context \<times> world" where
  "receive_frame afpc w entry =
     (case frames w (e_raw entry) of
        None \<Rightarrow> Inl OutOfBounds
      | Some s \<Rightarrow>
          (case curr_instance afpc of
             None \<Rightarrow> Inl NullPointer
           | Some iref \<Rightarrow>
               (case deref (instances afpc) iref of
                  None \<Rightarrow> Inl OutOfBounds
                | Some instance \<Rightarrow>
                    if tp_frame_size (layout (rx_ring instance)) < ucast (tp_mac (h2 s)) + tp_snaplen (h2 s)
                    then Inr (Returned DAQ_ERROR Null_Msg,
                              afpc\<lparr>errbuf := ''Corrupted frame on kernel ring''\<rparr>, w)
                    else
                      (case reconstruct_vlan w instance entry s (unat (tp_mac (h2 s)))
                              (tp_snaplen (h2 s)) (tp_len (h2 s)) of
                         Inl t \<Rightarrow> Inl t
                       | Inr (w1, data, snaplen1, len1) \<Rightarrow>
                           if (case fcode afpc of
                                 None \<Rightarrow> False
                               | Some prog \<Rightarrow>
                                   prog (case frames w1 (e_raw entry) of
                                           None \<Rightarrow> []
                                         | Some s1 \<Rightarrow> take (unat snaplen1) (drop data (bytes s1)))
                                        len1 snaplen1 = 0)
                           then
                             (case afpacket_transmit_packet
                                     (afpc\<lparr>stats := (stats afpc)
                                        \<lparr>packets_filtered := packets_filtered (stats afpc) + 1\<rparr>\<rparr>)
                                     w1 (peer instance) (e_raw entry, data) snaplen1 of
                                Inl t \<Rightarrow> Inl t
                              | Inr (rc, afpc2, w2) \<Rightarrow>
                                  (case afpacket_free_packet w2 (curr_packet afpc2) of
                                     Inl t \<Rightarrow> Inl t
                                   | Inr w3 \<Rightarrow> Inr (Next_Frame, afpc2, w3)))
                           else
                             (case (case peer instance of
                                      None \<Rightarrow> Some DAQ_PKTHDR_UNKNOWN
                                    | Some p \<Rightarrow> map_option i_index (deref (instances afpc) p)) of
                                None \<Rightarrow> Inl OutOfBounds
                              | Some egress \<Rightarrow>
                                  Inr (Returned DAQ_SUCCESS Curr_Msg,
                                       afpc\<lparr>curr_packet :=
                                              \<lparr>d_instance = Some iref, d_entry = Some entry,
                                               d_data = (e_raw entry, data), d_length = snaplen1,
                                               pkthdr = \<lparr>ts_sec = tp_sec (h2 s),
                                                 ts_usec = tp_nsec (h2 s) div 1000,
                                                 caplen = snaplen1, pktlen = len1,
                                                 ingress_index = i_index instance,
                                                 egress_index = egress,
                                                 ingress_group = DAQ_PKTHDR_UNKNOWN,
                                                 egress_group = DAQ_PKTHDR_UNKNOWN,
                                                 flags = 0, opaque = 0, address_space_id = 0\<rparr>\<rparr>,
                                            curr_msg := \<lparr>msg_type = DAQ_MSG_TYPE_PACKET, msg = Curr_Packet\<rparr>\<rparr>,
                                       w1))))))"

text \<open>
  \<^verbatim>\<open>afpacket_daq_msg_receive\<close>: the do-while loop, which need not end. The result is the
  return code, \<^verbatim>\<open>*msgptr\<close>, the context and the world; \<open>None\<close> is a call that never
  returns. A \<^verbatim>\<open>continue\<close> goes to the test of \<^verbatim>\<open>break_loop\<close>.
\<close>

partial_function (option) receive_loop ::
  "AFPacket_Context \<Rightarrow> world \<Rightarrow> (trap + int \<times> msg_ptr \<times> AFPacket_Context \<times> world) option" where
  "receive_loop afpc w =
     (case afpacket_find_packet afpc w of
        Inl t \<Rightarrow> Some (Inl t)
      | Inr (None, afpc1) \<Rightarrow>
          (case wait_retry afpc1 w of
             None \<Rightarrow> None
           | Some (ret, afpc2, w2) \<Rightarrow>
               if ret \<le> 0 then Some (Inr (ret, Null_Msg, afpc2, w2))
               else if \<not> break_loop afpc2 then receive_loop afpc2 w2
               else Some (Inr (DAQ_SUCCESS, Null_Msg, afpc2, w2)))
      | Inr (Some entry, afpc1) \<Rightarrow>
          (case receive_frame afpc1 w entry of
             Inl t \<Rightarrow> Some (Inl t)
           | Inr (Returned rc m, afpc2, w2) \<Rightarrow> Some (Inr (rc, m, afpc2, w2))
           | Inr (Next_Frame, afpc2, w2) \<Rightarrow>
               if \<not> break_loop afpc2 then receive_loop afpc2 w2
               else Some (Inr (DAQ_SUCCESS, Null_Msg, afpc2, w2))))"

declare receive_loop.simps [code]

definition afpacket_daq_msg_receive ::
  "AFPacket_Context \<Rightarrow> world \<Rightarrow> (trap + int \<times> msg_ptr \<times> AFPacket_Context \<times> world) option" where
  "afpacket_daq_msg_receive afpc w = receive_loop afpc w"

text \<open>
  \<^verbatim>\<open>afpacket_daq_msg_finalize\<close>, with the descriptor pointer \<^verbatim>\<open>msg->msg\<close> of a message
  pointer and the verdict as the unsigned value of the enumeration.
\<close>

definition verdict_translation_table :: "u32 list" where
  "verdict_translation_table =
     [DAQ_VERDICT_PASS, DAQ_VERDICT_BLOCK, DAQ_VERDICT_PASS, DAQ_VERDICT_PASS,
      DAQ_VERDICT_BLOCK, DAQ_VERDICT_PASS, DAQ_VERDICT_BLOCK]"

definition msg_desc :: "AFPacket_Context \<Rightarrow> msg_ptr \<Rightarrow> desc_ptr option" where
  "msg_desc afpc m =
     (case m of Null_Msg \<Rightarrow> None | Curr_Msg \<Rightarrow> Some (msg (curr_msg afpc)) | Other_Msg d \<Rightarrow> Some d)"

definition sanitize_verdict :: "u32 \<Rightarrow> u32" where
  "sanitize_verdict verdict = (if MAX_DAQ_VERDICT \<le> verdict then DAQ_VERDICT_PASS else verdict)"

definition afpacket_daq_msg_finalize ::
  "AFPacket_Context \<Rightarrow> world \<Rightarrow> msg_ptr \<Rightarrow> u32 \<Rightarrow> trap + int \<times> AFPacket_Context \<times> world" where
  "afpacket_daq_msg_finalize afpc w m verdict =
     (case msg_desc afpc m of
        None \<Rightarrow> Inl NullPointer
      | Some desc \<Rightarrow>
          if m \<noteq> Curr_Msg \<or> desc \<noteq> Curr_Packet then Inr (DAQ_ERROR, afpc, w)
          else
            let v = sanitize_verdict verdict;
                afpc1 = afpc\<lparr>stats := (stats afpc)
                          \<lparr>verdicts := (verdicts (stats afpc))[unat v := verdicts (stats afpc) ! unat v + 1]\<rparr>\<rparr>;
                d = curr_packet afpc1
            in (case (if verdict_translation_table ! unat v = DAQ_VERDICT_PASS
                      then (case d_instance d of
                              None \<Rightarrow> Inl NullPointer
                            | Some iref \<Rightarrow>
                                (case deref (instances afpc1) iref of
                                   None \<Rightarrow> Inl OutOfBounds
                                 | Some instance \<Rightarrow>
                                     afpacket_transmit_packet afpc1 w (peer instance) (d_data d) (d_length d)))
                      else Inr (DAQ_SUCCESS, afpc1, w)) of
                  Inl t \<Rightarrow> Inl t
                | Inr (rc, afpc2, w2) \<Rightarrow>
                    (case afpacket_free_packet w2 d of
                       Inl t \<Rightarrow> Inl t
                     | Inr w3 \<Rightarrow> Inr (DAQ_SUCCESS, afpc2, w3))))"

text \<open>
  \<^verbatim>\<open>afpacket_daq_inject\<close>, the other caller of the transmit path: it reports a full TX
  ring in the error buffer and counts what it sent.
\<close>

fun find_ingress :: "AFPacketInstance list \<Rightarrow> int \<Rightarrow> nat option" where
  "find_ingress [] idx = None"
| "find_ingress (inst # rest) idx = (if i_index inst = idx then Some (length rest) else find_ingress rest idx)"

definition afpacket_daq_inject ::
  "AFPacket_Context \<Rightarrow> world \<Rightarrow> int \<Rightarrow> nat \<times> nat \<Rightarrow> u32 \<Rightarrow> bool
     \<Rightarrow> trap + int \<times> AFPacket_Context \<times> world" where
  "afpacket_daq_inject afpc w hdr_ingress_index packet_data len reverse =
     (case (case find_ingress (instances afpc) hdr_ingress_index of
              None \<Rightarrow> None
            | Some e \<Rightarrow> if reverse then Some e
                        else (case deref (instances afpc) e of None \<Rightarrow> None | Some i \<Rightarrow> peer i)) of
        None \<Rightarrow> Inr (DAQ_ERROR,
                  afpc\<lparr>errbuf := ''Could not determine which instance to inject the packet out of!''\<rparr>, w)
      | Some egress \<Rightarrow>
          (case afpacket_transmit_packet afpc w (Some egress) packet_data len of
             Inl t \<Rightarrow> Inl t
           | Inr (rval, afpc1, w1) \<Rightarrow>
               if rval \<noteq> DAQ_SUCCESS
               then Inr (rval,
                      afpc1\<lparr>errbuf := (if rval = DAQ_ERROR_AGAIN
                                        then ''Could not send packet because the TX ring is full.''
                                        else ''Error sending packet'')\<rparr>, w1)
               else Inr (DAQ_SUCCESS,
                      afpc1\<lparr>stats := (stats afpc1)\<lparr>packets_injected := packets_injected (stats afpc1) + 1\<rparr>\<rparr>,
                      w1)))"

section \<open>Notions of the claims\<close>





section \<open>Concrete inputs\<close>

definition layout_example_context :: AFPacket_Context where
  "layout_example_context = zero_context\<lparr>snaplen := 65535, c_size := 33554432\<rparr>"

text \<open>A context with the largest snap length an \<^verbatim>\<open>int\<close> holds.\<close>

definition huge_snaplen_context :: AFPacket_Context where
  "huge_snaplen_context = zero_context\<lparr>snaplen := 2147483647, c_size := 134217728\<rparr>"


text \<open>
  A host with the interfaces \<^verbatim>\<open>eth0\<close>, \<^verbatim>\<open>eth1\<close> and \<^verbatim>\<open>eth2\<close>, no buffer size in the
  environment, and a \<^verbatim>\<open>strtoul\<close> that reads decimal digits.
\<close>

definition digit_value :: "char \<Rightarrow> nat option" where
  "digit_value c =
     (if (48 :: nat) \<le> of_char c \<and> of_char c \<le> (57 :: nat) then Some (of_char c - 48) else None)"

fun read_digits :: "nat \<Rightarrow> string \<Rightarrow> nat" where
  "read_digits acc [] = acc"
| "read_digits acc (c # cs) =
     (case digit_value c of None \<Rightarrow> acc | Some d \<Rightarrow> read_digits (10 * acc + d) cs)"

definition example_os :: os_env where
  "example_os =
     \<lparr>calloc_context_ok = True, strdup_device_ok = True,
      open_interface = (\<lambda>dev. if dev = ''eth0'' then Inr (3, 2)
                              else if dev = ''eth1'' then Inr (4, 3)
                              else if dev = ''eth2'' then Inr (5, 4)
                              else Inl ''Could not find index for device''),
      getenv_buffer_size = None,
      strtoul = read_digits 0,
      have_PACKET_FANOUT = True, have_PACKET_FANOUT_QM = True\<rparr>"

definition example_config :: "string \<Rightarrow> DAQ_Mode \<Rightarrow> DAQ_ModuleConfig" where
  "example_config input mode =
     \<lparr>cfg_input = input, cfg_snaplen = 1514, cfg_timeout = 1000, cfg_mode = mode, cfg_variables = []\<rparr>"

text \<open>
  A started engine. Slots are 2048 bytes, two to a ring; a slot holds a 16-byte Ethernet
  frame at the MAC offset 70.
\<close>

definition example_frame :: "u8 list" where
  "example_frame = [1, 2, 3, 4, 5, 6, 7, 8, 9, 10, 11, 12, 0x08, 0x00, 0xAA, 0xBB]"

definition example_slot :: "u32 \<Rightarrow> u16 \<Rightarrow> u16 \<Rightarrow> slot" where
  "example_slot status tci tpid =
     \<lparr>h2 = \<lparr>tp_status = status, tp_len = 16, tp_snaplen = 16, tp_mac = 70, tp_net = 84,
             tp_sec = 1, tp_nsec = 2000, tp_vlan_tci = tci, tp_vlan_tpid = tpid\<rparr>,
      bytes = replicate 70 0 @ example_frame @ replicate 1962 0\<rparr>"

definition example_ring :: "nat \<Rightarrow> AFPacketRing" where
  "example_ring a =
     \<lparr>layout = \<lparr>tp_block_size = 4096, tp_block_nr = 1, tp_frame_size = 2048, tp_frame_nr = 2\<rparr>,
      r_size = 4096, r_start = a,
      entries = [\<lparr>e_next = Some 1, e_raw = a\<rparr>, \<lparr>e_next = Some 0, e_raw = a + 2048\<rparr>],
      cursor = Some 0\<rparr>"

definition example_world :: "(nat \<times> slot) list \<Rightarrow> poll_event list \<Rightarrow> world" where
  "example_world mem ps =
     \<lparr>frames = map_of mem, polls = ps, sends = [], wire = [],
      have_TP_STATUS_VLAN_VALID = True, have_TP_STATUS_VLAN_TPID_VALID = True\<rparr>"

text \<open>One passive interface, its RX ring at address 65536.\<close>

definition passive_context :: AFPacket_Context where
  "passive_context =
     zero_context\<lparr>device := ''eth0'', snaplen := 1514, timeout := - 1, c_size := 134217728,
       instances := [\<lparr>i_fd = 3, tp_version = TPACKET_V2, tp_hdrlen = 32,
                       rx_ring = example_ring 65536, tx_ring = zero_ring,
                       i_name = ''eth0'', i_index = 2, peer = None, sll_protocol = [0, 3]\<rparr>],
       intf_count := 1, state := DAQ_STATE_STARTED, curr_instance := Some 0\<rparr>"

text \<open>
  A bridge of \<^verbatim>\<open>eth0\<close> (instance number 0, rings at 65536 and 69632) and \<^verbatim>\<open>eth1\<close>
  (instance number 1, rings at 131072 and 135168).
\<close>

definition bridge_context :: AFPacket_Context where
  "bridge_context =
     zero_context\<lparr>device := ''eth0:eth1'', snaplen := 1514, timeout := - 1, c_size := 33554432,
       instances := [\<lparr>i_fd = 4, tp_version = TPACKET_V2, tp_hdrlen = 32,
                       rx_ring = example_ring 131072, tx_ring = example_ring 135168,
                       i_name = ''eth1'', i_index = 3, peer = Some 0, sll_protocol = [0, 3]\<rparr>,
                     \<lparr>i_fd = 3, tp_version = TPACKET_V2, tp_hdrlen = 32,
                       rx_ring = example_ring 65536, tx_ring = example_ring 69632,
                       i_name = ''eth0'', i_index = 2, peer = Some 1, sll_protocol = [0, 3]\<rparr>],
       intf_count := 2, state := DAQ_STATE_STARTED, curr_instance := Some 1\<rparr>"

text \<open>A filter program that rejects every frame.\<close>

definition reject_all :: sfbpf_program where
  "reject_all frame_bytes wire_len cap_len = 0"

text \<open>
  The context after \<^verbatim>\<open>afpacket_daq_msg_receive\<close> has delivered the example frame from the
  first slot of the RX ring at address \<open>a\<close> of instance number \<open>r\<close>: the ring's cursor, the
  current instance, the descriptor and the message.
\<close>

definition delivered_desc :: "nat \<Rightarrow> nat \<Rightarrow> int \<Rightarrow> int \<Rightarrow> AFPacketPktDesc" where
  "delivered_desc r a ingress egress =
     \<lparr>d_instance = Some r, d_entry = Some \<lparr>e_next = Some 1, e_raw = a\<rparr>, d_data = (a, 70),
      d_length = 16,
      pkthdr = \<lparr>ts_sec = 1, ts_usec = 2, caplen = 16, pktlen = 16, ingress_index = ingress,
                egress_index = egress, ingress_group = - 1, egress_group = - 1, flags = 0,
                opaque = 0, address_space_id = 0\<rparr>\<rparr>"

definition after_first_message :: "AFPacket_Context \<Rightarrow> nat \<Rightarrow> nat \<Rightarrow> int \<Rightarrow> int \<Rightarrow> AFPacket_Context" where
  "after_first_message afpc r a ingress egress =
     afpc\<lparr>curr_instance := Some r,
          instances := update_inst (instances afpc) r (\<lambda>i. i\<lparr>rx_ring := (rx_ring i)\<lparr>cursor := Some 1\<rparr>\<rparr>),
          curr_packet := delivered_desc r a ingress egress,
          curr_msg := \<lparr>msg_type = DAQ_MSG_TYPE_PACKET, msg = Curr_Packet\<rparr>\<rparr>"

text \<open>A slot whose capture length makes the 32-bit sum with the MAC offset wrap to 0.\<close>

definition wrapping_slot :: slot where
  "wrapping_slot =
     \<lparr>h2 = \<lparr>tp_status = TP_STATUS_USER, tp_len = 16, tp_snaplen = 4294967226, tp_mac = 70, tp_net = 84,
             tp_sec = 1, tp_nsec = 2000, tp_vlan_tci = 0, tp_vlan_tpid = 0\<rparr>,
      bytes = replicate 70 0 @ example_frame @ replicate 1962 0\<rparr>"




text \<open>A slot of a TX ring with the given status and no content.\<close>

definition tx_slot :: "u32 \<Rightarrow> slot" where
  "tx_slot status =
     \<lparr>h2 = \<lparr>tp_status = status, tp_len = 0, tp_snaplen = 0, tp_mac = 0, tp_net = 0,
             tp_sec = 0, tp_nsec = 0, tp_vlan_tci = 0, tp_vlan_tpid = 0\<rparr>,
      bytes = replicate 2048 0\<rparr>"

text \<open>
  The bridge after the example frame has been delivered from \<^verbatim>\<open>eth0\<close>, with the cursor slot
  of the TX ring of \<^verbatim>\<open>eth1\<close> still waiting to be sent: the TX ring is full.
\<close>

definition bridge_delivered :: AFPacket_Context where
  "bridge_delivered = after_first_message bridge_context 0 65536 2 3"

definition tx_full_world :: world where
  "tx_full_world =
     example_world [(65536, example_slot TP_STATUS_USER 0 0), (135168, tx_slot TP_STATUS_SEND_REQUEST)] []"

text \<open>
  The same bridge with the cursor slot of the TX ring of \<^verbatim>\<open>eth1\<close> available; the bridge
  with no TX rings set up; and the passive engine after the example frame has been
  delivered.
\<close>

definition tx_ready_world :: world where
  "tx_ready_world =
     example_world [(65536, example_slot TP_STATUS_USER 0 0), (135168, tx_slot TP_STATUS_AVAILABLE)] []"

definition bridge_without_tx :: AFPacket_Context where
  "bridge_without_tx =
     bridge_delivered\<lparr>instances := map (\<lambda>i. i\<lparr>tx_ring := zero_ring\<rparr>) (instances bridge_delivered)\<rparr>"

definition passive_delivered :: AFPacket_Context where
  "passive_delivered = after_first_message passive_context 0 65536 2 (- 1)"

text \<open>
  The passive engine with the rejecting filter: before any message was delivered, and
  after the frame of the first slot was delivered and both slots hold a frame again.
\<close>

definition filtering_fresh :: AFPacket_Context where
  "filtering_fresh = passive_context\<lparr>fcode := Some reject_all\<rparr>"

definition filtering_after_message :: AFPacket_Context where
  "filtering_after_message = (after_first_message passive_context 0 65536 2 (- 1))\<lparr>fcode := Some reject_all\<rparr>"

definition one_frame_world :: world where
  "one_frame_world = example_world [(65536, example_slot TP_STATUS_USER 0 0)] [Poll_Timeout]"

definition two_frames_world :: world where
  "two_frames_world =
     example_world [(65536, example_slot TP_STATUS_USER 0 0), (67584, example_slot TP_STATUS_USER 0 0)]
       [Poll_Timeout]"

text \<open>
  The passive engine with nothing to read, waiting in \<^verbatim>\<open>poll\<close>: a signal whose handler calls
  \<^verbatim>\<open>daq_breakloop\<close> interrupts the call; the next call fails, or never returns.
\<close>

definition idle_world :: "poll_event list \<Rightarrow> world" where
  "idle_world ps =
     example_world [(65536, example_slot TP_STATUS_KERNEL 0 0), (67584, example_slot TP_STATUS_KERNEL 0 0)] ps"

definition wrapping_world :: world where
  "wrapping_world = example_world [(65536, wrapping_slot)] []"

section \<open>Properties of the ring layout\<close>

lemma grow_block_terminates:
  assumes "b \<noteq> 0" "unat fs \<le> 2 ^ 31"
  shows "\<exists>k. grow_block fs b = Some (b * 2 ^ k) \<and> fs \<le> b * 2 ^ k \<and> (\<forall>j<k. b * 2 ^ j < fs)"
  using assms
proof (induction "unat fs - unat b" arbitrary: b rule: less_induct)
  case less
  show ?case
  proof (cases "b < fs")
    case False
    then have "grow_block fs b = Some (b * 2 ^ 0)" by (subst grow_block.simps) simp
    moreover have "fs \<le> b * 2 ^ 0" using False by simp
    ultimately show ?thesis by blast
  next
    case True
    then have lt: "unat b < unat fs" by (simp add: word_less_nat_alt)
    have pos: "0 < unat b" using less.prems(1) by (simp add: unat_gt_0)
    have two: "unat (2 * b) = 2 * unat b"
      using lt less.prems(2) by (simp add: unat_word_ariths)
    have nz: "2 * b \<noteq> 0" using two pos by (metis mult_eq_0_iff unat_0 zero_neq_numeral not_less_zero)
    have dec: "unat fs - unat (2 * b) < unat fs - unat b" using two lt pos by simp
    from less.hyps[OF dec nz less.prems(2)]
    obtain k where k: "grow_block fs (2 * b) = Some (2 * b * 2 ^ k)" "fs \<le> 2 * b * 2 ^ k"
      "\<forall>j<k. 2 * b * 2 ^ j < fs" by blast
    have "grow_block fs b = Some (b * 2 ^ Suc k)"
      using True k(1) by (subst grow_block.simps) (simp add: push_bit_eq_mult ac_simps)
    moreover have "fs \<le> b * 2 ^ Suc k" using k(2) by (simp add: ac_simps)
    moreover have "\<forall>j<Suc k. b * 2 ^ j < fs"
    proof (intro allI impI)
      fix j assume "j < Suc k"
      show "b * 2 ^ j < fs"
      proof (cases j)
        case 0 then show ?thesis using True by simp
      next
        case (Suc j')
        then have "j' < k" using \<open>j < Suc k\<close> by simp
        then have "2 * b * 2 ^ j' < fs" using k(3) by blast
        then show ?thesis using Suc by (simp add: ac_simps)
      qed
    qed
    ultimately show ?thesis by blast
  qed
qed

lemma layout_counts_ok:
  assumes fs0: "tp_frame_size l \<noteq> 0" and le: "tp_frame_size l \<le> tp_block_size l"
  shows "\<exists>lay'. layout_counts afpc l = Inr (DAQ_SUCCESS, afpc, lay')
      \<and> tp_frame_size lay' = tp_frame_size l
      \<and> tp_block_size lay' = tp_block_size l
      \<and> tp_block_size l div tp_frame_size l \<noteq> 0
      \<and> tp_block_nr lay' = (c_size afpc div tp_frame_size l) div (tp_block_size l div tp_frame_size l)
      \<and> tp_frame_nr lay' = tp_block_nr lay' * (tp_block_size l div tp_frame_size l)
      \<and> unat (tp_frame_nr lay') = unat (tp_block_nr lay') * unat (tp_block_size l div tp_frame_size l)"
proof -
  let ?fs = "tp_frame_size l" and ?bs = "tp_block_size l"
  let ?fpb = "?bs div ?fs"
  have "0 < unat ?fs" using fs0 by (simp add: unat_gt_0)
  moreover have "unat ?fs \<le> unat ?bs" using le by (simp add: word_le_nat_alt)
  ultimately have "0 < unat ?bs div unat ?fs" by (simp add: div_greater_zero_iff)
  then have fpb_pos: "0 < unat ?fpb" by (simp add: unat_div)
  then have fpb: "?fpb \<noteq> 0" by (metis unat_0 less_irrefl)
  let ?fn = "c_size afpc div ?fs"
  let ?bn = "?fn div ?fpb"
  have "unat ?bn * unat ?fpb \<le> unat ?fn" by (simp add: unat_div)
  also have "\<dots> < 2 ^ 32" using unsigned_less[of ?fn, where ?'a=nat] by simp
  finally have nowrap: "unat (?bn * ?fpb) = unat ?bn * unat ?fpb"
    by (simp add: unat_mult_lem[THEN iffD1])
  show ?thesis
    using fs0 fpb nowrap by (simp add: layout_counts_def Let_def)
qed

text \<open>
  Within range the layout is as follows. For a frame size that is not 0 and at most
  \<open>2 ^ 31\<close> and a first block size (the page size shifted left by the order) that is not
  0, \<^verbatim>\<open>calculate_layout\<close> returns success with a layout whose block size is the first block
  size doubled \<open>k\<close> times, where \<open>k\<close> is the least number of doublings that reaches the
  frame size; the number of frames per block is then not 0, the block count is the
  per-ring bytes divided by the frame size and then by the frames per block, and the frame
  count is the block count times the frames per block (a product that does not wrap).
\<close>

lemma calculate_layout_in_range:
  assumes fs0: "layout_frame_size afpc hdrlen \<noteq> 0"
      and fs31: "unat (layout_frame_size afpc hdrlen) \<le> 2 ^ 31"
      and pg: "(word_of_int (page_size * 2 ^ order) :: u32) \<noteq> 0"
  shows "\<exists>k lay'. calculate_layout page_size afpc lay hdrlen order = Some (Inr (DAQ_SUCCESS, afpc, lay'))
      \<and> tp_frame_size lay' = layout_frame_size afpc hdrlen
      \<and> tp_block_size lay' = word_of_int (page_size * 2 ^ order) * 2 ^ k
      \<and> (\<forall>j<k. (word_of_int (page_size * 2 ^ order) :: u32) * 2 ^ j < tp_frame_size lay')
      \<and> tp_frame_size lay' \<le> tp_block_size lay'
      \<and> tp_block_size lay' div tp_frame_size lay' \<noteq> 0
      \<and> tp_block_nr lay' = (c_size afpc div tp_frame_size lay') div (tp_block_size lay' div tp_frame_size lay')
      \<and> tp_frame_nr lay' = tp_block_nr lay' * (tp_block_size lay' div tp_frame_size lay')
      \<and> unat (tp_frame_nr lay') = unat (tp_block_nr lay') * unat (tp_block_size lay' div tp_frame_size lay')"
proof -
  let ?fs = "layout_frame_size afpc hdrlen"
  let ?b0 = "word_of_int (page_size * 2 ^ order) :: u32"
  from grow_block_terminates[OF pg fs31]
  obtain k where k: "grow_block ?fs ?b0 = Some (?b0 * 2 ^ k)" "?fs \<le> ?b0 * 2 ^ k"
    "\<forall>j<k. ?b0 * 2 ^ j < ?fs" by blast
  let ?l = "lay\<lparr>tp_frame_size := ?fs, tp_block_size := ?b0 * 2 ^ k\<rparr>"
  have l1: "tp_frame_size ?l \<noteq> 0" using fs0 by simp
  have l2: "tp_frame_size ?l \<le> tp_block_size ?l" using k(2) by simp
  from layout_counts_ok[OF l1 l2, of afpc]
  obtain lay' where lay': "layout_counts afpc ?l = Inr (DAQ_SUCCESS, afpc, lay')"
      "tp_frame_size lay' = tp_frame_size ?l" "tp_block_size lay' = tp_block_size ?l"
      "tp_block_size ?l div tp_frame_size ?l \<noteq> 0"
      "tp_block_nr lay' = (c_size afpc div tp_frame_size ?l) div (tp_block_size ?l div tp_frame_size ?l)"
      "tp_frame_nr lay' = tp_block_nr lay' * (tp_block_size ?l div tp_frame_size ?l)"
      "unat (tp_frame_nr lay') = unat (tp_block_nr lay') * unat (tp_block_size ?l div tp_frame_size ?l)"
    by blast
  have run: "calculate_layout page_size afpc lay hdrlen order = Some (Inr (DAQ_SUCCESS, afpc, lay'))"
    using k(1) lay'(1) by (simp add: calculate_layout_def Let_def)
  show ?thesis
    apply (rule exI[of _ k], rule exI[of _ lay'])
    using run lay'(2-7) k(2,3) by simp
qed

lemma layout_example_frame_size: "layout_frame_size layout_example_context 32 = 65616"
  by (simp add: layout_frame_size_def layout_example_context_def zero_context_def
        TPACKET_ALIGN_def sizeof_sockaddr_ll_def ETH_HLEN_def VLAN_TAG_LEN_def)

lemma layout_example_run:
  "calculate_layout 4096 layout_example_context zero_layout 32 3 =
     Some (Inr (DAQ_SUCCESS, layout_example_context,
       \<lparr>tp_block_size = 131072, tp_block_nr = 511, tp_frame_size = 65616, tp_frame_nr = 511\<rparr>))"
  by (simp add: calculate_layout_def layout_example_frame_size grow_block.simps layout_counts_def
        zero_layout_def Let_def)
    (simp add: layout_example_context_def zero_context_def)

text \<open>
  Whenever \<^verbatim>\<open>calculate_layout\<close> returns at all, it returns success: the loop leaves a block
  size that is at least the frame size, so the frames per block are never 0.
\<close>

lemma grow_block_reaches:
  assumes "grow_block fs b = Some bs"
  shows "\<not> bs < fs"
  using assms
proof (induction fs b bs rule: grow_block.raw_induct)
  case (1 grow_block' frame_size block_size y)
  show ?case
  proof (cases "block_size < frame_size")
    case True
    then have "grow_block frame_size (push_bit 1 block_size) = Some y"
      using "1.prems" by (subst (asm) grow_block.simps) simp
    moreover have "grow_block' frame_size (push_bit 1 block_size) = Some y"
      using "1.hyps" True by simp
    ultimately show ?thesis using "1.IH" by blast
  next
    case False
    then show ?thesis using "1.hyps" by simp
  qed
qed (rule assms)

lemma calculate_layout_no_error:
  assumes "calculate_layout page_size afpc lay hdrlen order = Some (Inr (rc, afpc', lay'))"
  shows "rc = DAQ_SUCCESS \<and> afpc' = afpc
       \<and> tp_frame_size lay' \<le> tp_block_size lay'
       \<and> tp_frame_nr lay' = tp_block_nr lay' * (tp_block_size lay' div tp_frame_size lay')"
proof -
  let ?fs = "layout_frame_size afpc hdrlen"
  from assms obtain bs where
      g: "grow_block ?fs (word_of_int (page_size * 2 ^ order)) = Some bs"
      and l: "layout_counts afpc (lay\<lparr>tp_frame_size := ?fs, tp_block_size := bs\<rparr>) = Inr (rc, afpc', lay')"
    by (auto simp: calculate_layout_def Let_def split: option.splits)
  from grow_block_reaches[OF g] have le: "?fs \<le> bs" by simp
  from l have fs0: "?fs \<noteq> 0" by (auto simp: layout_counts_def split: if_splits)
  from layout_counts_ok[of "lay\<lparr>tp_frame_size := ?fs, tp_block_size := bs\<rparr>" afpc] fs0 le l
  show ?thesis by auto
qed


text \<open>
  A loop entered with a block size of 0 keeps it: it ends only for a frame size of 0.
\<close>

lemma grow_block_from_zero:
  assumes "grow_block fs b = Some bs" and "b = 0"
  shows "bs = 0"
  using assms
proof (induction fs b bs rule: grow_block.raw_induct)
  case (1 grow_block' frame_size block_size y)
  show ?case
  proof (cases "block_size < frame_size")
    case True
    then have "grow_block' frame_size (push_bit 1 block_size) = Some y"
      using "1.hyps" by simp
    moreover have "grow_block frame_size (push_bit 1 block_size) = Some y"
      using "1.prems"(1) True by (subst (asm) grow_block.simps) simp
    moreover have "push_bit 1 block_size = 0" using "1.prems"(2) by simp
    ultimately show ?thesis using "1.IH" by blast
  next
    case False
    then show ?thesis using "1.hyps" "1.prems" by simp
  qed
qed (rule assms)

lemma grow_block_zero_hangs:
  assumes "fs \<noteq> 0"
  shows "grow_block fs 0 = None"
proof (cases "grow_block fs 0")
  case None then show ?thesis .
next
  case (Some bs)
  from grow_block_from_zero[OF Some] have "bs = 0" by simp
  moreover from grow_block_reaches[OF Some] have "\<not> bs < fs" .
  ultimately show ?thesis using assms by (simp add: word_less_nat_alt unat_gt_0)
qed

lemma huge_frame_size: "layout_frame_size huge_snaplen_context 32 = 2147483728"
  by (simp add: layout_frame_size_def huge_snaplen_context_def zero_context_def
        TPACKET_ALIGN_def sizeof_sockaddr_ll_def ETH_HLEN_def VLAN_TAG_LEN_def)

text \<open>
  From the eight pages of the default order the block size doubles sixteen times to
  \<open>2 ^ 31\<close>, still below the frame size, and once more to \<open>2 ^ 32\<close>, which is 0 in 32 bits.
\<close>

lemma grow_block_huge: "grow_block 2147483728 32768 = None"
proof -
  have wrap: "(4294967296 :: u32) = 0" by simp
  have "grow_block 2147483728 32768 = grow_block 2147483728 0"
    apply (subst grow_block.simps, simp add: word_less_nat_alt)
    apply (subst grow_block.simps, simp add: word_less_nat_alt)
    apply (subst grow_block.simps, simp add: word_less_nat_alt)
    apply (subst grow_block.simps, simp add: word_less_nat_alt)
    apply (subst grow_block.simps, simp add: word_less_nat_alt)
    apply (subst grow_block.simps, simp add: word_less_nat_alt)
    apply (subst grow_block.simps, simp add: word_less_nat_alt)
    apply (subst grow_block.simps, simp add: word_less_nat_alt)
    apply (subst grow_block.simps, simp add: word_less_nat_alt)
    apply (subst grow_block.simps, simp add: word_less_nat_alt)
    apply (subst grow_block.simps, simp add: word_less_nat_alt)
    apply (subst grow_block.simps, simp add: word_less_nat_alt)
    apply (subst grow_block.simps, simp add: word_less_nat_alt)
    apply (subst grow_block.simps, simp add: word_less_nat_alt)
    apply (subst grow_block.simps, simp add: word_less_nat_alt)
    apply (subst grow_block.simps, simp add: word_less_nat_alt)
    apply (subst grow_block.simps, simp add: word_less_nat_alt)
    apply (simp add: wrap)
    done
  then show ?thesis by (simp add: grow_block_zero_hangs)
qed

text \<open>
  Claim C7. \<^verbatim>\<open>calculate_layout\<close> is to produce a layout, or to fail with an error when no
  frame fits a block. With the largest snap length an \<^verbatim>\<open>int\<close> holds, a page size of 4096, the
  default order 3 and the header length 32 of \<^verbatim>\<open>TPACKET_V2\<close>, the frame size is 2147483728,
  above \<open>2 ^ 31\<close>: the doubling of the block size wraps to 0 before it reaches the frame
  size, the loop never ends, and the call returns neither a layout nor the error.
\<close>

theorem calculate_layout_never_returns:
  "layout_frame_size huge_snaplen_context 32 = 2147483728
   \<and> calculate_layout 4096 huge_snaplen_context zero_layout 32 3 = None"
  by (simp add: huge_frame_size calculate_layout_def Let_def grow_block_huge)
section \<open>Properties of the ring descriptor build\<close>








section \<open>Properties of the initialisation\<close>












lemmas initialize_eval =
  afpacket_daq_initialize_def example_os_def example_config_def zero_context_def
  parse_devices.simps IFNAMSIZ_def AF_PACKET_MAX_INTERFACES_def create_instance_def Let_def
  create_bridge_def update_inst_def DAQ_SUCCESS_def DAQ_ERROR_NODEV_def buffer_bytes_def
  AF_PACKET_DEFAULT_BUFFER_SIZE_def word_div_def word_le_nat_alt

text \<open>
  Claim C6 at the input \<^verbatim>\<open>eth0:eth1:eth0:eth2\<close> in inline mode, on a host where the three
  interfaces open: the initialisation succeeds with four instances (listed newest first),
  but \<^verbatim>\<open>create_bridge\<close> looks the two names of the second pair up in the whole list, and
  \<^verbatim>\<open>eth0\<close> resolves to the oldest instance of that name. Instance number 1 (\<^verbatim>\<open>eth1\<close>) keeps
  the peer number 0, instance number 0 gets the peer number 3 (\<^verbatim>\<open>eth2\<close>), and instance
  number 2, the second \<^verbatim>\<open>eth0\<close>, has no peer.
\<close>

theorem initialize_duplicate_names:
  "(case afpacket_daq_initialize example_os (example_config ''eth0:eth1:eth0:eth2'' DAQ_MODE_INLINE) of
      Inr (Inr afpc) \<Rightarrow>
        map i_name (instances afpc) = [''eth2'', ''eth0'', ''eth1'', ''eth0'']
        \<and> map peer (instances afpc) = [Some 0, None, Some 0, Some 3]
    | _ \<Rightarrow> False)"
  by (simp add: initialize_eval)

text \<open>
  The rejections of the device string that do not depend on the loop: an empty head, an
  empty tail, and in passive mode an empty interior token.
\<close>

lemma initialize_rejects_edges:
  assumes "calloc_context_ok os" "strdup_device_ok os"
      and "(cfg_input config \<noteq> [] \<and> hd (cfg_input config) = CHR '':'')
           \<or> (cfg_input config \<noteq> [] \<and> last (cfg_input config) = CHR '':'')
           \<or> (cfg_mode config = DAQ_MODE_PASSIVE \<and> strstr_found (cfg_input config) ''::'')"
  shows "afpacket_daq_initialize os config = Inr (Inl (DAQ_ERROR, ''Invalid interface specification!''))"
  using assms by (auto simp: afpacket_daq_initialize_def Let_def)

section \<open>Evaluation of the running engine on concrete states\<close>

lemmas runtime_eval =
  afpacket_daq_msg_receive_def receive_loop.simps afpacket_find_packet_def find_loop.simps
  wait_retry.simps afpacket_wait_for_packet_def afpacket_daq_breakloop_def receive_frame_def reconstruct_vlan_def
  afpacket_transmit_packet_def afpacket_free_packet_def afpacket_daq_msg_finalize_def
  msg_desc_def sanitize_verdict_def verdict_translation_table_def
  deref_def update_inst_def load_bytes_def store_bytes_def sys_send_def htons_def
  passive_context_def bridge_context_def example_ring_def example_world_def example_slot_def
  example_frame_def zero_context_def zero_ring_def zero_layout_def zero_stats_def zero_pkthdr_def
  reject_all_def delivered_desc_def after_first_message_def
  DAQ_SUCCESS_def DAQ_ERROR_def DAQ_ERROR_AGAIN_def TPACKET_V2_def TP_STATUS_USER_def
  TP_STATUS_KERNEL_def TP_STATUS_VLAN_VALID_def TP_STATUS_VLAN_TPID_VALID_def
  TP_STATUS_AVAILABLE_def TP_STATUS_SEND_REQUEST_def VLAN_TAG_LEN_def vlan_offset_def ETH_ALEN_def
  ETH_P_8021Q_def MAX_DAQ_VERDICT_def DAQ_VERDICT_PASS_def DAQ_PKTHDR_UNKNOWN_def
  TPACKET_ALIGN_def Let_def word_le_nat_alt word_less_nat_alt

section \<open>Properties of the verdict handling\<close>

lemma transmit_keeps:
  assumes "afpacket_transmit_packet afpc w egress p len = Inr (rc, afpc', w')"
  shows "errbuf afpc' = errbuf afpc" and "stats afpc' = stats afpc"
    and "curr_packet afpc' = curr_packet afpc" and "curr_msg afpc' = curr_msg afpc"
    and "break_loop afpc' = break_loop afpc" and "fcode afpc' = fcode afpc"
  using assms
  by (auto simp: afpacket_transmit_packet_def Let_def sys_send_def
           split: option.splits if_splits prod.splits list.splits)

lemma transmit_keeps_mapped:
  assumes "afpacket_transmit_packet afpc w egress p len = Inr (rc, afpc', w')"
      and "frames w a = Some s"
  shows "\<exists>s'. frames w' a = Some s'"
  using assms
  by (auto simp: afpacket_transmit_packet_def Let_def sys_send_def
           split: option.splits if_splits prod.splits list.splits)

lemma transmit_null_peer:
  "afpacket_transmit_packet afpc w None p len = Inr (DAQ_SUCCESS, afpc, w)"
  by (simp add: afpacket_transmit_packet_def)

lemma transmit_ring_full:
  assumes "deref (instances afpc) r = Some eg" "r_size (tx_ring eg) \<noteq> 0"
      and "cursor (tx_ring eg) = Some c" "c < length (entries (tx_ring eg))"
      and "frames w (e_raw (entries (tx_ring eg) ! c)) = Some txs"
      and "tp_status (h2 txs) \<noteq> TP_STATUS_AVAILABLE"
  shows "afpacket_transmit_packet afpc w (Some r) p len = Inr (DAQ_ERROR_AGAIN, afpc, w)"
  using assms by (simp add: afpacket_transmit_packet_def Let_def)

lemma translation_pass:
  "v = DAQ_VERDICT_PASS \<or> v = DAQ_VERDICT_REPLACE \<or> v = DAQ_VERDICT_WHITELIST \<or> v = DAQ_VERDICT_IGNORE
     \<Longrightarrow> verdict_translation_table ! unat v = DAQ_VERDICT_PASS"
  by (auto simp: verdict_translation_table_def DAQ_VERDICT_PASS_def DAQ_VERDICT_REPLACE_def
        DAQ_VERDICT_WHITELIST_def DAQ_VERDICT_IGNORE_def)

lemma translation_block:
  "v = DAQ_VERDICT_BLOCK \<or> v = DAQ_VERDICT_BLACKLIST \<or> v = DAQ_VERDICT_RETRY
     \<Longrightarrow> verdict_translation_table ! unat v \<noteq> DAQ_VERDICT_PASS"
  by (auto simp: verdict_translation_table_def DAQ_VERDICT_PASS_def DAQ_VERDICT_BLOCK_def
        DAQ_VERDICT_BLACKLIST_def DAQ_VERDICT_RETRY_def)

text \<open>The two ways \<^verbatim>\<open>afpacket_transmit_packet\<close> hands a frame to the kernel.\<close>

lemma sys_send_keeps:
  "frames (snd (sys_send w)) = frames w" "wire (snd (sys_send w)) = wire w"
  "fst (sys_send (w\<lparr>frames := F\<rparr>)) = fst (sys_send w)"
  "snd (sys_send (w\<lparr>frames := F\<rparr>)) = (snd (sys_send w))\<lparr>frames := F\<rparr>"
  by (simp_all add: sys_send_def split: list.splits)

lemma transmit_ring_send:
  assumes "deref (instances afpc) r = Some eg" "r_size (tx_ring eg) \<noteq> 0"
      and "cursor (tx_ring eg) = Some c" "c < length (entries (tx_ring eg))"
      and "frames w (e_raw (entries (tx_ring eg) ! c)) = Some txs"
      and "tp_status (h2 txs) = TP_STATUS_AVAILABLE"
      and "load_bytes w p (unat len) = Some pkt"
      and "unat (TPACKET_ALIGN (tp_hdrlen eg)) + unat len \<le> length (bytes txs)"
      and "fst (sys_send w)"
  shows "afpacket_transmit_packet afpc w (Some r) p len
     = Inr (DAQ_SUCCESS,
         afpc\<lparr>instances := update_inst (instances afpc) r
           (\<lambda>i. i\<lparr>tx_ring := (tx_ring i)\<lparr>cursor := e_next (entries (tx_ring eg) ! c)\<rparr>\<rparr>)\<rparr>,
         (snd (sys_send w))
           \<lparr>frames := (frames w)(e_raw (entries (tx_ring eg) ! c) \<mapsto>
              txs\<lparr>bytes := store_bytes (bytes txs) (unat (TPACKET_ALIGN (tp_hdrlen eg))) pkt,
                  h2 := (h2 txs)\<lparr>tp_len := len, tp_status := TP_STATUS_SEND_REQUEST\<rparr>\<rparr>),
            wire := wire w @ [(i_index eg, pkt)]\<rparr>)"
  using assms
  by (simp add: afpacket_transmit_packet_def Let_def sys_send_keeps case_prod_beta)

lemma transmit_sendto:
  assumes "deref (instances afpc) r = Some eg" "r_size (tx_ring eg) = 0"
      and "load_bytes w (fst p, snd p + 12) 2 = Some h_proto"
      and "load_bytes w p (unat len) = Some pkt"
      and "fst (sys_send w)"
  shows "afpacket_transmit_packet afpc w (Some r) p len
     = Inr (DAQ_SUCCESS,
         afpc\<lparr>instances := update_inst (instances afpc) r (\<lambda>i. i\<lparr>sll_protocol := h_proto\<rparr>)\<rparr>,
         (snd (sys_send w))\<lparr>wire := wire w @ [(i_index eg, pkt)]\<rparr>)"
  using assms
  by (simp add: afpacket_transmit_packet_def Let_def sys_send_keeps case_prod_beta)

text \<open>
  Claim C2, as amended. For the current message of the context, whose descriptor names
  the ingress instance and the entry of the frame, the slot of the entry being mapped:

  \<^item> a verdict at or above \<^verbatim>\<open>MAX_DAQ_VERDICT\<close> counts as pass and any other as itself;

  \<^item> for block, blacklist and retry the call returns success; the context changes in the
    counter of the sanitized verdict only, which goes up by one, and the world in the
    status of the frame's slot only, which goes back to the kernel: nothing is transmitted;

  \<^item> for pass, replace, whitelist and ignore on an instance without a peer, the same;

  \<^item> for these verdicts on an instance with a peer that has a TX ring, when the cursor
    slot of that ring is available (it is not the frame's slot, the frame lies in its slot
    and fits behind the aligned header) and \<^verbatim>\<open>send\<close> succeeds: the frame's bytes are copied
    into the TX slot, the slot gets the frame's length and the send-request status, the
    frame is handed to the kernel for the peer's interface, the TX cursor moves to the
    next entry, the frame's slot goes back to the kernel and the call returns success;

  \<^item> when that cursor slot is not available (the TX ring is full): nothing is transmitted
    and nothing is written to the error buffer; the call returns success, the verdict is
    counted and the frame's slot goes back to the kernel;

  \<^item> for these verdicts on an instance with a peer that has no TX ring, when \<^verbatim>\<open>sendto\<close>
    succeeds: the frame is handed to the kernel for the peer's interface under the
    protocol of its Ethernet header, and the frame's slot goes back to the kernel;

  \<^item> whenever the call returns, it returns success, with the error buffer and
    \<^verbatim>\<open>packets_injected\<close> as they were, the counter of the sanitized verdict one higher and
    the frame's slot owned by the kernel.
\<close>

theorem msg_finalize_current:
  assumes cur: "msg (curr_msg afpc) = Curr_Packet"
      and ins: "d_instance (curr_packet afpc) = Some iref"
      and ent: "d_entry (curr_packet afpc) = Some entry"
      and ing: "deref (instances afpc) iref = Some ingress"
      and mapped: "frames w (e_raw entry) = Some s"
  shows
   "let v = sanitize_verdict verdict;
        counted = afpc\<lparr>stats := (stats afpc)\<lparr>verdicts := (verdicts (stats afpc))
                    [unat v := verdicts (stats afpc) ! unat v + 1]\<rparr>\<rparr>;
        freed = (\<lambda>m. m(e_raw entry \<mapsto> s\<lparr>h2 := (h2 s)\<lparr>tp_status := TP_STATUS_KERNEL\<rparr>\<rparr>));
        dat = d_data (curr_packet afpc);
        len = d_length (curr_packet afpc);
        txe = entries (tx_ring eg) ! c;
        off = unat (TPACKET_ALIGN (tp_hdrlen eg))
    in (MAX_DAQ_VERDICT \<le> verdict \<longrightarrow> v = DAQ_VERDICT_PASS)
     \<and> (verdict < MAX_DAQ_VERDICT \<longrightarrow> v = verdict)
     \<and> (v = DAQ_VERDICT_BLOCK \<or> v = DAQ_VERDICT_BLACKLIST \<or> v = DAQ_VERDICT_RETRY
          \<longrightarrow> afpacket_daq_msg_finalize afpc w Curr_Msg verdict
              = Inr (DAQ_SUCCESS, counted, w\<lparr>frames := freed (frames w)\<rparr>))
     \<and> (v = DAQ_VERDICT_PASS \<or> v = DAQ_VERDICT_REPLACE \<or> v = DAQ_VERDICT_WHITELIST \<or> v = DAQ_VERDICT_IGNORE
          \<longrightarrow>
            (peer ingress = None
               \<longrightarrow> afpacket_daq_msg_finalize afpc w Curr_Msg verdict
                   = Inr (DAQ_SUCCESS, counted, w\<lparr>frames := freed (frames w)\<rparr>))
          \<and> (peer ingress = Some p \<longrightarrow> deref (instances afpc) p = Some eg \<longrightarrow> r_size (tx_ring eg) \<noteq> 0
               \<longrightarrow> cursor (tx_ring eg) = Some c \<longrightarrow> c < length (entries (tx_ring eg))
               \<longrightarrow> frames w (e_raw txe) = Some txs
               \<longrightarrow>
                 (tp_status (h2 txs) = TP_STATUS_AVAILABLE \<longrightarrow> e_raw txe \<noteq> e_raw entry
                    \<longrightarrow> load_bytes w dat (unat len) = Some pkt \<longrightarrow> off + unat len \<le> length (bytes txs)
                    \<longrightarrow> fst (sys_send w)
                    \<longrightarrow> afpacket_daq_msg_finalize afpc w Curr_Msg verdict
                        = Inr (DAQ_SUCCESS,
                            counted\<lparr>instances := update_inst (instances afpc) p
                              (\<lambda>i. i\<lparr>tx_ring := (tx_ring i)\<lparr>cursor := e_next txe\<rparr>\<rparr>)\<rparr>,
                            (snd (sys_send w))
                              \<lparr>frames := freed ((frames w)(e_raw txe \<mapsto>
                                  txs\<lparr>bytes := store_bytes (bytes txs) off pkt,
                                      h2 := (h2 txs)\<lparr>tp_len := len, tp_status := TP_STATUS_SEND_REQUEST\<rparr>\<rparr>)),
                               wire := wire w @ [(i_index eg, pkt)]\<rparr>))
               \<and> (tp_status (h2 txs) \<noteq> TP_STATUS_AVAILABLE
                    \<longrightarrow> afpacket_daq_msg_finalize afpc w Curr_Msg verdict
                        = Inr (DAQ_SUCCESS, counted, w\<lparr>frames := freed (frames w)\<rparr>)))
          \<and> (peer ingress = Some p \<longrightarrow> deref (instances afpc) p = Some eg \<longrightarrow> r_size (tx_ring eg) = 0
               \<longrightarrow> load_bytes w (fst dat, snd dat + 12) 2 = Some h_proto
               \<longrightarrow> load_bytes w dat (unat len) = Some pkt
               \<longrightarrow> fst (sys_send w)
               \<longrightarrow> afpacket_daq_msg_finalize afpc w Curr_Msg verdict
                   = Inr (DAQ_SUCCESS,
                       counted\<lparr>instances := update_inst (instances afpc) p (\<lambda>i. i\<lparr>sll_protocol := h_proto\<rparr>)\<rparr>,
                       (snd (sys_send w))\<lparr>frames := freed (frames w), wire := wire w @ [(i_index eg, pkt)]\<rparr>)))
     \<and> (\<forall>rc afpc' w'. afpacket_daq_msg_finalize afpc w Curr_Msg verdict = Inr (rc, afpc', w')
          \<longrightarrow> rc = DAQ_SUCCESS \<and> errbuf afpc' = errbuf afpc
            \<and> packets_injected (stats afpc') = packets_injected (stats afpc)
            \<and> verdicts (stats afpc') = (verdicts (stats afpc))[unat v := verdicts (stats afpc) ! unat v + 1]
            \<and> map_option (\<lambda>x. tp_status (h2 x)) (frames w' (e_raw entry)) = Some TP_STATUS_KERNEL)"
  unfolding Let_def
proof (intro conjI impI allI)
  show "sanitize_verdict verdict = DAQ_VERDICT_PASS" if "MAX_DAQ_VERDICT \<le> verdict"
    using that by (simp add: sanitize_verdict_def)
  show "sanitize_verdict verdict = verdict" if "verdict < MAX_DAQ_VERDICT"
    using that by (auto simp: sanitize_verdict_def dest: leD)
next
  let ?v = "sanitize_verdict verdict"
  assume "?v = DAQ_VERDICT_BLOCK \<or> ?v = DAQ_VERDICT_BLACKLIST \<or> ?v = DAQ_VERDICT_RETRY"
  then have "verdict_translation_table ! unat ?v \<noteq> DAQ_VERDICT_PASS" by (rule translation_block)
  then show "afpacket_daq_msg_finalize afpc w Curr_Msg verdict
      = Inr (DAQ_SUCCESS,
          afpc\<lparr>stats := (stats afpc)\<lparr>verdicts := (verdicts (stats afpc))[unat ?v := verdicts (stats afpc) ! unat ?v + 1]\<rparr>\<rparr>,
          w\<lparr>frames := (frames w)(e_raw entry \<mapsto> s\<lparr>h2 := (h2 s)\<lparr>tp_status := TP_STATUS_KERNEL\<rparr>\<rparr>)\<rparr>)"
    using cur ent mapped
    by (simp add: afpacket_daq_msg_finalize_def msg_desc_def Let_def afpacket_free_packet_def)
next
  let ?v = "sanitize_verdict verdict"
  assume "?v = DAQ_VERDICT_PASS \<or> ?v = DAQ_VERDICT_REPLACE \<or> ?v = DAQ_VERDICT_WHITELIST \<or> ?v = DAQ_VERDICT_IGNORE"
  then have tr: "verdict_translation_table ! unat ?v = DAQ_VERDICT_PASS" by (rule translation_pass)
  assume "peer ingress = None"
  then show "afpacket_daq_msg_finalize afpc w Curr_Msg verdict
      = Inr (DAQ_SUCCESS,
          afpc\<lparr>stats := (stats afpc)\<lparr>verdicts := (verdicts (stats afpc))[unat ?v := verdicts (stats afpc) ! unat ?v + 1]\<rparr>\<rparr>,
          w\<lparr>frames := (frames w)(e_raw entry \<mapsto> s\<lparr>h2 := (h2 s)\<lparr>tp_status := TP_STATUS_KERNEL\<rparr>\<rparr>)\<rparr>)"
    using cur ins ent ing mapped tr
    by (simp add: afpacket_daq_msg_finalize_def msg_desc_def Let_def afpacket_free_packet_def
          transmit_null_peer)
next
  let ?v = "sanitize_verdict verdict"
  let ?counted = "afpc\<lparr>stats := (stats afpc)\<lparr>verdicts := (verdicts (stats afpc))[unat ?v := verdicts (stats afpc) ! unat ?v + 1]\<rparr>\<rparr>"
  let ?txe = "entries (tx_ring eg) ! c"
  assume "?v = DAQ_VERDICT_PASS \<or> ?v = DAQ_VERDICT_REPLACE \<or> ?v = DAQ_VERDICT_WHITELIST \<or> ?v = DAQ_VERDICT_IGNORE"
  then have tr: "verdict_translation_table ! unat ?v = DAQ_VERDICT_PASS" by (rule translation_pass)
  assume pr: "peer ingress = Some p" and eg: "deref (instances afpc) p = Some eg"
     and rs: "r_size (tx_ring eg) \<noteq> 0" and cu: "cursor (tx_ring eg) = Some c"
     and cl: "c < length (entries (tx_ring eg))" and tx: "frames w (e_raw ?txe) = Some txs"
     and av: "tp_status (h2 txs) = TP_STATUS_AVAILABLE" and ne: "e_raw ?txe \<noteq> e_raw entry"
     and lb: "load_bytes w (d_data (curr_packet afpc)) (unat (d_length (curr_packet afpc))) = Some pkt"
     and fit: "unat (TPACKET_ALIGN (tp_hdrlen eg)) + unat (d_length (curr_packet afpc)) \<le> length (bytes txs)"
     and ok: "fst (sys_send w)"
  have eg': "deref (instances ?counted) p = Some eg" using eg by simp
  note sent = transmit_ring_send[OF eg' rs cu cl tx av lb fit ok]
  show "afpacket_daq_msg_finalize afpc w Curr_Msg verdict
      = Inr (DAQ_SUCCESS,
          ?counted\<lparr>instances := update_inst (instances afpc) p
            (\<lambda>i. i\<lparr>tx_ring := (tx_ring i)\<lparr>cursor := e_next ?txe\<rparr>\<rparr>)\<rparr>,
          (snd (sys_send w))
            \<lparr>frames := ((frames w)(e_raw ?txe \<mapsto>
                txs\<lparr>bytes := store_bytes (bytes txs) (unat (TPACKET_ALIGN (tp_hdrlen eg))) pkt,
                    h2 := (h2 txs)\<lparr>tp_len := d_length (curr_packet afpc), tp_status := TP_STATUS_SEND_REQUEST\<rparr>\<rparr>))
                (e_raw entry \<mapsto> s\<lparr>h2 := (h2 s)\<lparr>tp_status := TP_STATUS_KERNEL\<rparr>\<rparr>),
             wire := wire w @ [(i_index eg, pkt)]\<rparr>)"
    using cur ins ent ing mapped tr pr ne
    by (simp add: afpacket_daq_msg_finalize_def msg_desc_def Let_def afpacket_free_packet_def sent)
next
  let ?v = "sanitize_verdict verdict"
  let ?counted = "afpc\<lparr>stats := (stats afpc)\<lparr>verdicts := (verdicts (stats afpc))[unat ?v := verdicts (stats afpc) ! unat ?v + 1]\<rparr>\<rparr>"
  let ?txe = "entries (tx_ring eg) ! c"
  assume "?v = DAQ_VERDICT_PASS \<or> ?v = DAQ_VERDICT_REPLACE \<or> ?v = DAQ_VERDICT_WHITELIST \<or> ?v = DAQ_VERDICT_IGNORE"
  then have tr: "verdict_translation_table ! unat ?v = DAQ_VERDICT_PASS" by (rule translation_pass)
  assume pr: "peer ingress = Some p" and eg: "deref (instances afpc) p = Some eg"
     and rs: "r_size (tx_ring eg) \<noteq> 0" and cu: "cursor (tx_ring eg) = Some c"
     and cl: "c < length (entries (tx_ring eg))" and tx: "frames w (e_raw ?txe) = Some txs"
     and nav: "tp_status (h2 txs) \<noteq> TP_STATUS_AVAILABLE"
  have eg': "deref (instances ?counted) p = Some eg" using eg by simp
  note full = transmit_ring_full[OF eg' rs cu cl tx nav]
  show "afpacket_daq_msg_finalize afpc w Curr_Msg verdict
      = Inr (DAQ_SUCCESS, ?counted,
          w\<lparr>frames := (frames w)(e_raw entry \<mapsto> s\<lparr>h2 := (h2 s)\<lparr>tp_status := TP_STATUS_KERNEL\<rparr>\<rparr>)\<rparr>)"
    using cur ins ent ing mapped tr pr
    by (simp add: afpacket_daq_msg_finalize_def msg_desc_def Let_def afpacket_free_packet_def full)
next
  let ?v = "sanitize_verdict verdict"
  let ?counted = "afpc\<lparr>stats := (stats afpc)\<lparr>verdicts := (verdicts (stats afpc))[unat ?v := verdicts (stats afpc) ! unat ?v + 1]\<rparr>\<rparr>"
  assume "?v = DAQ_VERDICT_PASS \<or> ?v = DAQ_VERDICT_REPLACE \<or> ?v = DAQ_VERDICT_WHITELIST \<or> ?v = DAQ_VERDICT_IGNORE"
  then have tr: "verdict_translation_table ! unat ?v = DAQ_VERDICT_PASS" by (rule translation_pass)
  assume pr: "peer ingress = Some p" and eg: "deref (instances afpc) p = Some eg"
     and rs: "r_size (tx_ring eg) = 0"
     and lh: "load_bytes w (fst (d_data (curr_packet afpc)), snd (d_data (curr_packet afpc)) + 12) 2 = Some h_proto"
     and lb: "load_bytes w (d_data (curr_packet afpc)) (unat (d_length (curr_packet afpc))) = Some pkt"
     and ok: "fst (sys_send w)"
  have eg': "deref (instances ?counted) p = Some eg" using eg by simp
  note sent = transmit_sendto[OF eg' rs lh lb ok]
  show "afpacket_daq_msg_finalize afpc w Curr_Msg verdict
      = Inr (DAQ_SUCCESS,
          ?counted\<lparr>instances := update_inst (instances afpc) p (\<lambda>i. i\<lparr>sll_protocol := h_proto\<rparr>)\<rparr>,
          (snd (sys_send w))\<lparr>frames := (frames w)(e_raw entry \<mapsto> s\<lparr>h2 := (h2 s)\<lparr>tp_status := TP_STATUS_KERNEL\<rparr>\<rparr>),
             wire := wire w @ [(i_index eg, pkt)]\<rparr>)"
    using cur ins ent ing mapped tr pr
    by (simp add: afpacket_daq_msg_finalize_def msg_desc_def Let_def afpacket_free_packet_def sent
          sys_send_keeps)
next
  fix rc afpc' w'
  let ?v = "sanitize_verdict verdict"
  let ?counted = "afpc\<lparr>stats := (stats afpc)\<lparr>verdicts := (verdicts (stats afpc))[unat ?v := verdicts (stats afpc) ! unat ?v + 1]\<rparr>\<rparr>"
  assume fin: "afpacket_daq_msg_finalize afpc w Curr_Msg verdict = Inr (rc, afpc', w')"
  have "\<exists>wT s2. stats afpc' = stats ?counted \<and> errbuf afpc' = errbuf afpc \<and> rc = DAQ_SUCCESS
          \<and> w' = wT\<lparr>frames := (frames wT)(e_raw entry \<mapsto> s2\<lparr>h2 := (h2 s2)\<lparr>tp_status := TP_STATUS_KERNEL\<rparr>\<rparr>)\<rparr>"
  proof (cases "verdict_translation_table ! unat ?v = DAQ_VERDICT_PASS")
    case False
    then show ?thesis using fin cur ent mapped
      by (auto simp: afpacket_daq_msg_finalize_def msg_desc_def Let_def afpacket_free_packet_def)
  next
    case True
    from fin True cur ins ent ing obtain rcT afpcT wT where
      tx: "afpacket_transmit_packet ?counted w (peer ingress) (d_data (curr_packet afpc))
             (d_length (curr_packet afpc)) = Inr (rcT, afpcT, wT)"
      by (auto simp: afpacket_daq_msg_finalize_def msg_desc_def Let_def split: sum.splits)
    from transmit_keeps_mapped[OF tx mapped] obtain s2 where s2: "frames wT (e_raw entry) = Some s2" ..
    have "afpacket_daq_msg_finalize afpc w Curr_Msg verdict
          = Inr (DAQ_SUCCESS, afpcT,
              wT\<lparr>frames := (frames wT)(e_raw entry \<mapsto> s2\<lparr>h2 := (h2 s2)\<lparr>tp_status := TP_STATUS_KERNEL\<rparr>\<rparr>)\<rparr>)"
      using cur ent ins ing tx True s2
      by (simp add: afpacket_daq_msg_finalize_def msg_desc_def Let_def afpacket_free_packet_def)
    with fin have "rc = DAQ_SUCCESS" "afpc' = afpcT"
      "w' = wT\<lparr>frames := (frames wT)(e_raw entry \<mapsto> s2\<lparr>h2 := (h2 s2)\<lparr>tp_status := TP_STATUS_KERNEL\<rparr>\<rparr>)\<rparr>"
      by simp_all
    moreover have "stats afpcT = stats ?counted" "errbuf afpcT = errbuf afpc"
      using transmit_keeps(1,2)[OF tx] by simp_all
    ultimately show ?thesis by blast
  qed
  then obtain wT s2 where r: "stats afpc' = stats ?counted" "errbuf afpc' = errbuf afpc" "rc = DAQ_SUCCESS"
      "w' = wT\<lparr>frames := (frames wT)(e_raw entry \<mapsto> s2\<lparr>h2 := (h2 s2)\<lparr>tp_status := TP_STATUS_KERNEL\<rparr>\<rparr>)\<rparr>"
    by blast
  show "rc = DAQ_SUCCESS" by (rule r(3))
  show "errbuf afpc' = errbuf afpc" by (rule r(2))
  show "packets_injected (stats afpc') = packets_injected (stats afpc)" using r(1) by simp
  show "verdicts (stats afpc') = (verdicts (stats afpc))[unat ?v := verdicts (stats afpc) ! unat ?v + 1]"
    using r(1) by simp
  show "map_option (\<lambda>x. tp_status (h2 x)) (frames w' (e_raw entry)) = Some TP_STATUS_KERNEL"
    using r(4) by simp
qed

theorem msg_finalize_current_counterexample:
  "(case afpacket_daq_msg_finalize bridge_delivered tx_full_world Curr_Msg DAQ_VERDICT_PASS of
      Inr (rc, afpc', w') \<Rightarrow>
        rc = DAQ_SUCCESS \<and> errbuf afpc' = [] \<and> wire w' = []
        \<and> packets_injected (stats afpc') = 0
        \<and> map_option (\<lambda>s. tp_status (h2 s)) (frames w' 65536) = Some TP_STATUS_KERNEL
    | _ \<Rightarrow> False)
   \<and> map_option (\<lambda>s. tp_status (h2 s)) (frames tx_full_world 135168) = Some TP_STATUS_SEND_REQUEST"
  by (simp add: tx_slot_def bridge_delivered_def tx_full_world_def runtime_eval)

text \<open>
  The other caller of the transmit path, \<^verbatim>\<open>afpacket_daq_inject\<close>, on the same state: it
  returns the try-again code and writes the message into the error buffer.
\<close>

lemma inject_reports_full_ring:
  "(case afpacket_daq_inject bridge_delivered tx_full_world 2 (65536, 70) 16 False of
      Inr (rc, afpc', w') \<Rightarrow>
        rc = DAQ_ERROR_AGAIN \<and> errbuf afpc' = ''Could not send packet because the TX ring is full.''
    | _ \<Rightarrow> False)"
  by (simp add: tx_slot_def bridge_delivered_def tx_full_world_def runtime_eval afpacket_daq_inject_def)

text \<open>The definitions of the concrete states of this section.\<close>

lemmas finalize_example_eval =
  bridge_delivered_def bridge_without_tx_def passive_delivered_def tx_ready_world_def tx_full_world_def
  one_frame_world_def tx_slot_def
  after_first_message_def delivered_desc_def bridge_context_def passive_context_def
  zero_context_def zero_stats_def zero_ring_def zero_layout_def zero_pkthdr_def
  example_ring_def example_world_def example_slot_def example_frame_def
  deref_def update_inst_def load_bytes_def store_bytes_def sys_send_def sanitize_verdict_def
  MAX_DAQ_VERDICT_def DAQ_VERDICT_PASS_def DAQ_VERDICT_BLOCK_def DAQ_VERDICT_RETRY_def
  DAQ_SUCCESS_def TP_STATUS_USER_def TP_STATUS_KERNEL_def TP_STATUS_AVAILABLE_def
  TP_STATUS_SEND_REQUEST_def TPACKET_ALIGN_def Let_def word_le_nat_alt word_less_nat_alt

theorem msg_finalize_current_witness:
  "(case afpacket_daq_msg_finalize bridge_delivered tx_ready_world Curr_Msg DAQ_VERDICT_PASS of
      Inr (rc, afpc', w') \<Rightarrow>
        rc = DAQ_SUCCESS \<and> wire w' = [(3, example_frame)]
        \<and> map_option (\<lambda>x. (tp_status (h2 x), tp_len (h2 x), take 16 (drop 32 (bytes x)))) (frames w' 135168)
            = Some (TP_STATUS_SEND_REQUEST, 16, example_frame)
        \<and> map_option (\<lambda>x. tp_status (h2 x)) (frames w' 65536) = Some TP_STATUS_KERNEL
        \<and> map_option (\<lambda>i. cursor (tx_ring i)) (deref (instances afpc') 1) = Some (Some 1)
        \<and> verdicts (stats afpc') = [1, 0, 0, 0, 0, 0, 0]
        \<and> errbuf afpc' = [] \<and> packets_injected (stats afpc') = 0
    | Inl t \<Rightarrow> False)
   \<and> (case afpacket_daq_msg_finalize bridge_delivered tx_ready_world Curr_Msg DAQ_VERDICT_BLOCK of
      Inr (rc, afpc', w') \<Rightarrow>
        rc = DAQ_SUCCESS \<and> wire w' = []
        \<and> frames w' 135168 = Some (tx_slot TP_STATUS_AVAILABLE)
        \<and> map_option (\<lambda>x. tp_status (h2 x)) (frames w' 65536) = Some TP_STATUS_KERNEL
        \<and> instances afpc' = instances bridge_delivered
        \<and> verdicts (stats afpc') = [0, 1, 0, 0, 0, 0, 0]
    | Inl t \<Rightarrow> False)
   \<and> (case afpacket_daq_msg_finalize bridge_delivered tx_full_world Curr_Msg DAQ_VERDICT_PASS of
      Inr (rc, afpc', w') \<Rightarrow>
        rc = DAQ_SUCCESS \<and> wire w' = []
        \<and> frames w' 135168 = Some (tx_slot TP_STATUS_SEND_REQUEST)
        \<and> map_option (\<lambda>x. tp_status (h2 x)) (frames w' 65536) = Some TP_STATUS_KERNEL
        \<and> errbuf afpc' = errbuf bridge_delivered
        \<and> packets_injected (stats afpc') = packets_injected (stats bridge_delivered)
        \<and> verdicts (stats afpc') = [1, 0, 0, 0, 0, 0, 0]
    | Inl t \<Rightarrow> False)
   \<and> (case afpacket_daq_msg_finalize passive_delivered one_frame_world Curr_Msg DAQ_VERDICT_PASS of
      Inr (rc, afpc', w') \<Rightarrow>
        rc = DAQ_SUCCESS \<and> wire w' = []
        \<and> map_option (\<lambda>x. tp_status (h2 x)) (frames w' 65536) = Some TP_STATUS_KERNEL
    | Inl t \<Rightarrow> False)
   \<and> (case afpacket_daq_msg_finalize bridge_without_tx tx_full_world Curr_Msg DAQ_VERDICT_PASS of
      Inr (rc, afpc', w') \<Rightarrow>
        rc = DAQ_SUCCESS \<and> wire w' = [(3, example_frame)]
        \<and> map_option sll_protocol (deref (instances afpc') 1) = Some [8, 0]
        \<and> map_option (\<lambda>x. tp_status (h2 x)) (frames w' 65536) = Some TP_STATUS_KERNEL
    | Inl t \<Rightarrow> False)
   \<and> sanitize_verdict 9 = DAQ_VERDICT_PASS
   \<and> sanitize_verdict DAQ_VERDICT_RETRY = DAQ_VERDICT_RETRY"
proof -
  let ?e = "\<lparr>e_next = Some 1, e_raw = 65536\<rparr>"
  let ?s = "example_slot TP_STATUS_USER 0 0"
  let ?eth0 = "\<lparr>i_fd = 3, tp_version = TPACKET_V2, tp_hdrlen = 32,
                 rx_ring = (example_ring 65536)\<lparr>cursor := Some 1\<rparr>, tx_ring = example_ring 69632,
                 i_name = ''eth0'', i_index = 2, peer = Some 1, sll_protocol = [0, 3]\<rparr>"
  let ?eth1 = "\<lparr>i_fd = 4, tp_version = TPACKET_V2, tp_hdrlen = 32,
                 rx_ring = example_ring 131072, tx_ring = example_ring 135168,
                 i_name = ''eth1'', i_index = 3, peer = Some 0, sll_protocol = [0, 3]\<rparr>"
  let ?lone = "\<lparr>i_fd = 3, tp_version = TPACKET_V2, tp_hdrlen = 32,
                 rx_ring = (example_ring 65536)\<lparr>cursor := Some 1\<rparr>, tx_ring = zero_ring,
                 i_name = ''eth0'', i_index = 2, peer = None, sll_protocol = [0, 3]\<rparr>"
  have rep: "replicate 7 (0 :: u64) = [0, 0, 0, 0, 0, 0, 0]" by (simp add: eval_nat_numeral)
  have sp: "sanitize_verdict DAQ_VERDICT_PASS = DAQ_VERDICT_PASS"
    by (simp add: sanitize_verdict_def MAX_DAQ_VERDICT_def DAQ_VERDICT_PASS_def)
  have sb: "sanitize_verdict DAQ_VERDICT_BLOCK = DAQ_VERDICT_BLOCK"
    by (simp add: sanitize_verdict_def MAX_DAQ_VERDICT_def DAQ_VERDICT_BLOCK_def word_le_nat_alt)
  have pass: "sanitize_verdict DAQ_VERDICT_PASS = DAQ_VERDICT_PASS \<or>
       sanitize_verdict DAQ_VERDICT_PASS = DAQ_VERDICT_REPLACE \<or>
       sanitize_verdict DAQ_VERDICT_PASS = DAQ_VERDICT_WHITELIST \<or>
       sanitize_verdict DAQ_VERDICT_PASS = DAQ_VERDICT_IGNORE" using sp by simp
  have block: "sanitize_verdict DAQ_VERDICT_BLOCK = DAQ_VERDICT_BLOCK \<or>
       sanitize_verdict DAQ_VERDICT_BLOCK = DAQ_VERDICT_BLACKLIST \<or>
       sanitize_verdict DAQ_VERDICT_BLOCK = DAQ_VERDICT_RETRY" using sb by simp
  have cur: "msg (curr_msg bridge_delivered) = Curr_Packet"
    by (simp add: bridge_delivered_def after_first_message_def)
  have ins: "d_instance (curr_packet bridge_delivered) = Some 0"
    by (simp add: bridge_delivered_def after_first_message_def delivered_desc_def)
  have ent: "d_entry (curr_packet bridge_delivered) = Some ?e"
    by (simp add: bridge_delivered_def after_first_message_def delivered_desc_def)
  have d0: "deref (instances bridge_delivered) 0 = Some ?eth0"
    by (simp add: bridge_delivered_def after_first_message_def bridge_context_def zero_context_def
          deref_def update_inst_def)
  have d1: "deref (instances bridge_delivered) 1 = Some ?eth1"
    by (simp add: bridge_delivered_def after_first_message_def bridge_context_def zero_context_def
          deref_def update_inst_def)
  have p1: "peer ?eth0 = Some 1" by simp
  have p3: "r_size (tx_ring ?eth1) \<noteq> 0" by (simp add: example_ring_def)
  have p4: "cursor (tx_ring ?eth1) = Some 0" by (simp add: example_ring_def)
  have p5: "0 < length (entries (tx_ring ?eth1))" by (simp add: example_ring_def)

  txt \<open>The TX ring of the peer has room: the frame goes out.\<close>
  have mapped_r: "frames tx_ready_world (e_raw ?e) = Some ?s"
    by (simp add: tx_ready_world_def example_world_def)
  have txr: "frames tx_ready_world (e_raw (entries (tx_ring ?eth1) ! 0)) = Some (tx_slot TP_STATUS_AVAILABLE)"
    by (simp add: tx_ready_world_def example_world_def example_ring_def)
  have av: "tp_status (h2 (tx_slot TP_STATUS_AVAILABLE)) = TP_STATUS_AVAILABLE"
    by (simp add: tx_slot_def)
  have ne: "e_raw (entries (tx_ring ?eth1) ! 0) \<noteq> e_raw ?e" by (simp add: example_ring_def)
  have lb: "load_bytes tx_ready_world (d_data (curr_packet bridge_delivered))
              (unat (d_length (curr_packet bridge_delivered))) = Some example_frame"
    by (simp add: finalize_example_eval)
  have fit: "unat (TPACKET_ALIGN (tp_hdrlen ?eth1)) + unat (d_length (curr_packet bridge_delivered))
               \<le> length (bytes (tx_slot TP_STATUS_AVAILABLE))"
    by (simp add: finalize_example_eval)
  have ok: "fst (sys_send tx_ready_world)"
    by (simp add: sys_send_def tx_ready_world_def example_world_def)
  note R = msg_finalize_current[OF cur ins ent d0 mapped_r, unfolded Let_def]
  note sent = R[where verdict = DAQ_VERDICT_PASS and p = 1 and eg = ?eth1 and c = 0
                  and txs = "tx_slot TP_STATUS_AVAILABLE" and pkt = example_frame,
                THEN conjunct2, THEN conjunct2, THEN conjunct2, THEN conjunct1, rule_format, OF pass,
                THEN conjunct2, THEN conjunct1, rule_format, OF p1 d1 p3 p4 p5 txr,
                THEN conjunct1, rule_format, OF av ne lb fit ok]
  have a: "(case afpacket_daq_msg_finalize bridge_delivered tx_ready_world Curr_Msg DAQ_VERDICT_PASS of
      Inr (rc, afpc', w') \<Rightarrow>
        rc = DAQ_SUCCESS \<and> wire w' = [(3, example_frame)]
        \<and> map_option (\<lambda>x. (tp_status (h2 x), tp_len (h2 x), take 16 (drop 32 (bytes x)))) (frames w' 135168)
            = Some (TP_STATUS_SEND_REQUEST, 16, example_frame)
        \<and> map_option (\<lambda>x. tp_status (h2 x)) (frames w' 65536) = Some TP_STATUS_KERNEL
        \<and> map_option (\<lambda>i. cursor (tx_ring i)) (deref (instances afpc') 1) = Some (Some 1)
        \<and> verdicts (stats afpc') = [1, 0, 0, 0, 0, 0, 0]
        \<and> errbuf afpc' = [] \<and> packets_injected (stats afpc') = 0
    | Inl t \<Rightarrow> False)"
    by (simp only: sent) (simp add: finalize_example_eval rep)

  txt \<open>A blocking verdict on the same state: nothing goes out.\<close>
  note blocked = R[where verdict = DAQ_VERDICT_BLOCK,
                   THEN conjunct2, THEN conjunct2, THEN conjunct1, rule_format, OF block]
  have b: "(case afpacket_daq_msg_finalize bridge_delivered tx_ready_world Curr_Msg DAQ_VERDICT_BLOCK of
      Inr (rc, afpc', w') \<Rightarrow>
        rc = DAQ_SUCCESS \<and> wire w' = []
        \<and> frames w' 135168 = Some (tx_slot TP_STATUS_AVAILABLE)
        \<and> map_option (\<lambda>x. tp_status (h2 x)) (frames w' 65536) = Some TP_STATUS_KERNEL
        \<and> instances afpc' = instances bridge_delivered
        \<and> verdicts (stats afpc') = [0, 1, 0, 0, 0, 0, 0]
    | Inl t \<Rightarrow> False)"
    by (simp only: blocked) (simp add: finalize_example_eval rep)

  txt \<open>The TX ring of the peer is full.\<close>
  have mapped_f: "frames tx_full_world (e_raw ?e) = Some ?s"
    by (simp add: tx_full_world_def example_world_def)
  have txf: "frames tx_full_world (e_raw (entries (tx_ring ?eth1) ! 0)) = Some (tx_slot TP_STATUS_SEND_REQUEST)"
    by (simp add: tx_full_world_def example_world_def example_ring_def)
  have nav: "tp_status (h2 (tx_slot TP_STATUS_SEND_REQUEST)) \<noteq> TP_STATUS_AVAILABLE"
    by (simp add: tx_slot_def TP_STATUS_SEND_REQUEST_def TP_STATUS_AVAILABLE_def)
  note F = msg_finalize_current[OF cur ins ent d0 mapped_f, unfolded Let_def]
  note full = F[where verdict = DAQ_VERDICT_PASS and p = 1 and eg = ?eth1 and c = 0
                  and txs = "tx_slot TP_STATUS_SEND_REQUEST",
                THEN conjunct2, THEN conjunct2, THEN conjunct2, THEN conjunct1, rule_format, OF pass,
                THEN conjunct2, THEN conjunct1, rule_format, OF p1 d1 p3 p4 p5 txf,
                THEN conjunct2, rule_format, OF nav]
  note kept = F[where verdict = DAQ_VERDICT_PASS,
                THEN conjunct2, THEN conjunct2, THEN conjunct2, THEN conjunct2, rule_format, OF full]
  have c: "(case afpacket_daq_msg_finalize bridge_delivered tx_full_world Curr_Msg DAQ_VERDICT_PASS of
      Inr (rc, afpc', w') \<Rightarrow>
        rc = DAQ_SUCCESS \<and> wire w' = []
        \<and> frames w' 135168 = Some (tx_slot TP_STATUS_SEND_REQUEST)
        \<and> map_option (\<lambda>x. tp_status (h2 x)) (frames w' 65536) = Some TP_STATUS_KERNEL
        \<and> errbuf afpc' = errbuf bridge_delivered
        \<and> packets_injected (stats afpc') = packets_injected (stats bridge_delivered)
        \<and> verdicts (stats afpc') = [1, 0, 0, 0, 0, 0, 0]
    | Inl t \<Rightarrow> False)"
    using kept by (simp only: full) (simp add: finalize_example_eval rep)

  txt \<open>A passive interface has no peer.\<close>
  have cur_p: "msg (curr_msg passive_delivered) = Curr_Packet"
    by (simp add: passive_delivered_def after_first_message_def)
  have ins_p: "d_instance (curr_packet passive_delivered) = Some 0"
    by (simp add: passive_delivered_def after_first_message_def delivered_desc_def)
  have ent_p: "d_entry (curr_packet passive_delivered) = Some ?e"
    by (simp add: passive_delivered_def after_first_message_def delivered_desc_def)
  have d_p: "deref (instances passive_delivered) 0 = Some ?lone"
    by (simp add: passive_delivered_def after_first_message_def passive_context_def zero_context_def
          deref_def update_inst_def)
  have mapped_p: "frames one_frame_world (e_raw ?e) = Some ?s"
    by (simp add: one_frame_world_def example_world_def)
  have nopeer: "peer ?lone = None" by simp
  note lone = msg_finalize_current[OF cur_p ins_p ent_p d_p mapped_p, unfolded Let_def,
                where verdict = DAQ_VERDICT_PASS,
                THEN conjunct2, THEN conjunct2, THEN conjunct2, THEN conjunct1, rule_format, OF pass,
                THEN conjunct1, rule_format, OF nopeer]
  have d: "(case afpacket_daq_msg_finalize passive_delivered one_frame_world Curr_Msg DAQ_VERDICT_PASS of
      Inr (rc, afpc', w') \<Rightarrow>
        rc = DAQ_SUCCESS \<and> wire w' = []
        \<and> map_option (\<lambda>x. tp_status (h2 x)) (frames w' 65536) = Some TP_STATUS_KERNEL
    | Inl t \<Rightarrow> False)"
    by (simp only: lone) (simp add: finalize_example_eval)

  txt \<open>A bridge whose TX rings are not set up sends with \<^verbatim>\<open>sendto\<close>.\<close>
  let ?eth0n = "?eth0\<lparr>tx_ring := zero_ring\<rparr>"
  let ?eth1n = "?eth1\<lparr>tx_ring := zero_ring\<rparr>"
  have cur_n: "msg (curr_msg bridge_without_tx) = Curr_Packet"
    by (simp add: bridge_without_tx_def bridge_delivered_def after_first_message_def)
  have ins_n: "d_instance (curr_packet bridge_without_tx) = Some 0"
    by (simp add: bridge_without_tx_def bridge_delivered_def after_first_message_def delivered_desc_def)
  have ent_n: "d_entry (curr_packet bridge_without_tx) = Some ?e"
    by (simp add: bridge_without_tx_def bridge_delivered_def after_first_message_def delivered_desc_def)
  have d0n: "deref (instances bridge_without_tx) 0 = Some ?eth0n"
    by (simp add: bridge_without_tx_def bridge_delivered_def after_first_message_def bridge_context_def
          zero_context_def deref_def update_inst_def)
  have d1n: "deref (instances bridge_without_tx) 1 = Some ?eth1n"
    by (simp add: bridge_without_tx_def bridge_delivered_def after_first_message_def bridge_context_def
          zero_context_def deref_def update_inst_def)
  have p1n: "peer ?eth0n = Some 1" by simp
  have p3n: "r_size (tx_ring ?eth1n) = 0" by (simp add: zero_ring_def)
  have lh: "load_bytes tx_full_world (fst (d_data (curr_packet bridge_without_tx)),
              snd (d_data (curr_packet bridge_without_tx)) + 12) 2 = Some [8, 0]"
    by (simp add: finalize_example_eval)
  have lbn: "load_bytes tx_full_world (d_data (curr_packet bridge_without_tx))
              (unat (d_length (curr_packet bridge_without_tx))) = Some example_frame"
    by (simp add: finalize_example_eval)
  have okn: "fst (sys_send tx_full_world)"
    by (simp add: sys_send_def tx_full_world_def example_world_def)
  note sentto = msg_finalize_current[OF cur_n ins_n ent_n d0n mapped_f, unfolded Let_def,
                where verdict = DAQ_VERDICT_PASS and p = 1 and eg = ?eth1n
                  and h_proto = "[8, 0]" and pkt = example_frame,
                THEN conjunct2, THEN conjunct2, THEN conjunct2, THEN conjunct1, rule_format, OF pass,
                THEN conjunct2, THEN conjunct2, rule_format, OF p1n d1n p3n lh lbn okn]
  have e: "(case afpacket_daq_msg_finalize bridge_without_tx tx_full_world Curr_Msg DAQ_VERDICT_PASS of
      Inr (rc, afpc', w') \<Rightarrow>
        rc = DAQ_SUCCESS \<and> wire w' = [(3, example_frame)]
        \<and> map_option sll_protocol (deref (instances afpc') 1) = Some [8, 0]
        \<and> map_option (\<lambda>x. tp_status (h2 x)) (frames w' 65536) = Some TP_STATUS_KERNEL
    | Inl t \<Rightarrow> False)"
    by (simp only: sentto) (simp add: finalize_example_eval)

  have f: "sanitize_verdict 9 = DAQ_VERDICT_PASS"
    using R[where verdict = 9, THEN conjunct1]
    by (simp add: MAX_DAQ_VERDICT_def word_le_nat_alt)
  have g: "sanitize_verdict DAQ_VERDICT_RETRY = DAQ_VERDICT_RETRY"
    using R[where verdict = DAQ_VERDICT_RETRY, THEN conjunct2, THEN conjunct1]
    by (simp add: MAX_DAQ_VERDICT_def DAQ_VERDICT_RETRY_def word_less_nat_alt)
  show ?thesis using a b c d e f g by (intro conjI)
qed

section \<open>Properties of the VLAN reconstruction\<close>












section \<open>The receive loop on concrete states\<close>

text \<open>
  The state \<open>after_first_message\<close> is the one the engine reaches by delivering the frame of
  the first slot.
\<close>

lemma first_message_reached:
  "afpacket_daq_msg_receive passive_context one_frame_world
     = Some (Inr (DAQ_SUCCESS, Curr_Msg, after_first_message passive_context 0 65536 2 (- 1), one_frame_world))"
  by (simp add: one_frame_world_def runtime_eval)

text \<open>
  Claim C1 on two states of the passive engine with a filter that rejects the frame. On the
  fresh engine the rejected frame is the first one seen: the release reads the entry of
  \<^verbatim>\<open>curr_packet\<close>, which is still null. After one delivered message, with both slots
  holding a frame: the frame of the second slot is rejected and counted once, no message is
  delivered, but the slot that goes back to the kernel is the first one (the entry the
  descriptor of the earlier message still names, holding a frame not yet examined), and
  the slot of the rejected frame stays user-owned.
\<close>

theorem msg_receive_filtered_slot:
  "afpacket_daq_msg_receive filtering_fresh one_frame_world = Some (Inl NullPointer)
   \<and> (case afpacket_daq_msg_receive filtering_after_message two_frames_world of
        Some (Inr (rc, m, afpc', w')) \<Rightarrow>
          rc = DAQ_SUCCESS \<and> m = Null_Msg \<and> packets_filtered (stats afpc') = 1
          \<and> map_option (\<lambda>s. tp_status (h2 s)) (frames w' 67584) = Some TP_STATUS_USER
          \<and> map_option (\<lambda>s. tp_status (h2 s)) (frames w' 65536) = Some TP_STATUS_KERNEL
      | _ \<Rightarrow> False)"
  by (simp add: filtering_fresh_def filtering_after_message_def one_frame_world_def
        two_frames_world_def runtime_eval)

text \<open>
  The filter branch in general: the slot that goes back to the kernel is the one of the
  descriptor \<^verbatim>\<open>curr_packet\<close> as it was before this frame, whatever entry was claimed.
\<close>

lemma receive_frame_rejected:
  assumes slot: "frames w (e_raw entry) = Some s"
      and inst: "curr_instance afpc = Some iref" "deref (instances afpc) iref = Some ingress"
      and chk: "\<not> tp_frame_size (layout (rx_ring ingress)) < ucast (tp_mac (h2 s)) + tp_snaplen (h2 s)"
      and vl: "reconstruct_vlan w ingress entry s (unat (tp_mac (h2 s))) (tp_snaplen (h2 s)) (tp_len (h2 s))
                 = Inr (w1, data, snaplen1, len1)"
      and flt: "fcode afpc = Some prog"
      and rej: "prog (case frames w1 (e_raw entry) of
                        None \<Rightarrow> []
                      | Some s1 \<Rightarrow> take (unat snaplen1) (drop data (bytes s1))) len1 snaplen1 = 0"
      and tx: "afpacket_transmit_packet
                 (afpc\<lparr>stats := (stats afpc)\<lparr>packets_filtered := packets_filtered (stats afpc) + 1\<rparr>\<rparr>)
                 w1 (peer ingress) (e_raw entry, data) snaplen1 = Inr (rc, afpcT, wT)"
  shows "receive_frame afpc w entry
           = (case afpacket_free_packet wT (curr_packet afpc) of
                Inl t \<Rightarrow> Inl t
              | Inr w3 \<Rightarrow> Inr (Next_Frame, afpcT, w3))"
    and "packets_filtered (stats afpcT) = packets_filtered (stats afpc) + 1"
proof -
  have cp: "curr_packet afpcT = curr_packet afpc" using transmit_keeps(3)[OF tx] by simp
  show "receive_frame afpc w entry
           = (case afpacket_free_packet wT (curr_packet afpc) of
                Inl t \<Rightarrow> Inl t
              | Inr w3 \<Rightarrow> Inr (Next_Frame, afpcT, w3))"
    unfolding receive_frame_def using rej by (simp add: slot inst chk vl flt tx cp)
  show "packets_filtered (stats afpcT) = packets_filtered (stats afpc) + 1"
    using transmit_keeps(2)[OF tx] by simp
qed

text \<open>
  Claim C9 on a slot whose MAC offset is 70 and whose capture length is \<open>2 ^ 32 - 70\<close>, in a
  ring of 2048-byte frames: the sum exceeds the frame size, but the 32-bit sum is 0, the
  check passes and the frame is delivered with that capture length. The lemmas after it
  give what the code does when the sum does not wrap.
\<close>

theorem msg_receive_wrapping_slot:
  "(case afpacket_daq_msg_receive passive_context wrapping_world of
      Some (Inr (rc, m, afpc', w')) \<Rightarrow>
        rc = DAQ_SUCCESS \<and> m = Curr_Msg
        \<and> caplen (pkthdr (curr_packet afpc')) = 4294967226
        \<and> map_option (\<lambda>s. tp_status (h2 s)) (frames w' 65536) = Some TP_STATUS_USER
    | _ \<Rightarrow> False)
   \<and> unat (tp_frame_size (layout (example_ring 65536)))
       < unat (tp_mac (h2 wrapping_slot)) + unat (tp_snaplen (h2 wrapping_slot))"
  by (simp add: wrapping_world_def wrapping_slot_def runtime_eval)

lemma receive_frame_corrupt:
  assumes slot: "frames w (e_raw entry) = Some s"
      and inst: "curr_instance afpc = Some iref" "deref (instances afpc) iref = Some ingress"
      and over: "unat (tp_frame_size (layout (rx_ring ingress)))
                   < unat (tp_mac (h2 s)) + unat (tp_snaplen (h2 s))"
      and nowrap: "unat (tp_mac (h2 s)) + unat (tp_snaplen (h2 s)) < 2 ^ 32"
  shows "receive_frame afpc w entry
           = Inr (Returned DAQ_ERROR Null_Msg, afpc\<lparr>errbuf := ''Corrupted frame on kernel ring''\<rparr>, w)"
proof -
  have um: "unat (ucast (tp_mac (h2 s)) :: u32) = unat (tp_mac (h2 s))"
    using unsigned_less[of "tp_mac (h2 s)", where ?'a=nat]
    by (simp add: unsigned_ucast_eq take_bit_nat_eq_self)
  have "unat ((ucast (tp_mac (h2 s)) :: u32) + tp_snaplen (h2 s))
          = unat (tp_mac (h2 s)) + unat (tp_snaplen (h2 s))"
    using nowrap um by (simp add: unat_word_ariths)
  then have "tp_frame_size (layout (rx_ring ingress)) < ucast (tp_mac (h2 s)) + tp_snaplen (h2 s)"
    using over by (simp add: word_less_nat_alt)
  then show ?thesis unfolding receive_frame_def by (simp add: slot inst)
qed

lemma msg_receive_corrupt:
  assumes found: "afpacket_find_packet afpc0 w = Inr (Some entry, afpc)"
      and slot: "frames w (e_raw entry) = Some s"
      and inst: "curr_instance afpc = Some iref" "deref (instances afpc) iref = Some ingress"
      and over: "unat (tp_frame_size (layout (rx_ring ingress)))
                   < unat (tp_mac (h2 s)) + unat (tp_snaplen (h2 s))"
      and nowrap: "unat (tp_mac (h2 s)) + unat (tp_snaplen (h2 s)) < 2 ^ 32"
  shows "afpacket_daq_msg_receive afpc0 w
           = Some (Inr (DAQ_ERROR, Null_Msg, afpc\<lparr>errbuf := ''Corrupted frame on kernel ring''\<rparr>, w))"
  unfolding afpacket_daq_msg_receive_def
  by (subst receive_loop.simps)
     (simp add: found receive_frame_corrupt[OF slot inst over nowrap])

text \<open>
  Claim C3 on the passive engine with nothing to read and \<^verbatim>\<open>poll\<close> interrupted by a signal
  whose handler called \<^verbatim>\<open>daq_breakloop\<close>. The interrupted call is retried at once, without
  a look at the flag: when the next call fails the receive returns the generic error, with
  the flag set; when the next call never returns, neither does the receive. The lemma
  after it is the retry itself.
\<close>

theorem msg_receive_interrupted_break:
  "(case afpacket_daq_msg_receive passive_context (idle_world [Poll_Interrupted True, Poll_Failed]) of
      Some (Inr (rc, m, afpc', w')) \<Rightarrow> rc = DAQ_ERROR \<and> m = Null_Msg \<and> break_loop afpc'
    | _ \<Rightarrow> False)
   \<and> afpacket_daq_msg_receive passive_context (idle_world [Poll_Interrupted True]) = None"
  by (simp add: idle_world_def runtime_eval)

lemma wait_retry_interrupted:
  assumes "polls w = Poll_Interrupted brk # ps"
  shows "wait_retry afpc w
           = wait_retry (if brk then snd (afpacket_daq_breakloop afpc) else afpc) (w\<lparr>polls := ps\<rparr>)"
  by (subst wait_retry.simps) (simp add: afpacket_wait_for_packet_def assms DAQ_ERROR_AGAIN_def)

text \<open>
  Claim C10. When \<^verbatim>\<open>afpacket_daq_msg_finalize\<close> is given a message (not a null pointer) that
  is not the context's \<^verbatim>\<open>curr_msg\<close>, or whose descriptor pointer is not the context's
  \<^verbatim>\<open>curr_packet\<close>, it returns the generic error and leaves the context and the world as
  they are: no verdict counter, no transmission, no slot status changes.
\<close>

theorem msg_finalize_foreign:
  assumes "m \<noteq> Null_Msg"
      and "m \<noteq> Curr_Msg \<or> msg_desc afpc m \<noteq> Some Curr_Packet"
  shows "afpacket_daq_msg_finalize afpc w m verdict = Inr (DAQ_ERROR, afpc, w)"
  using assms
  by (cases m) (auto simp: afpacket_daq_msg_finalize_def msg_desc_def)

theorem msg_finalize_foreign_witness:
  "afpacket_daq_msg_finalize (after_first_message passive_context 0 65536 2 (- 1)) one_frame_world
       (Other_Msg Curr_Packet) DAQ_VERDICT_PASS
     = Inr (DAQ_ERROR, after_first_message passive_context 0 65536 2 (- 1), one_frame_world)
   \<and> afpacket_daq_msg_finalize (after_first_message passive_context 0 65536 2 (- 1)) one_frame_world
       (Other_Msg Other_Desc) DAQ_VERDICT_BLOCK
     = Inr (DAQ_ERROR, after_first_message passive_context 0 65536 2 (- 1), one_frame_world)
   \<and> afpacket_daq_msg_finalize passive_context one_frame_world Curr_Msg DAQ_VERDICT_PASS
     = Inr (DAQ_ERROR, passive_context, one_frame_world)"
proof (intro conjI)
  show "afpacket_daq_msg_finalize (after_first_message passive_context 0 65536 2 (- 1)) one_frame_world
       (Other_Msg Curr_Packet) DAQ_VERDICT_PASS
     = Inr (DAQ_ERROR, after_first_message passive_context 0 65536 2 (- 1), one_frame_world)"
    by (rule msg_finalize_foreign) simp_all
  show "afpacket_daq_msg_finalize (after_first_message passive_context 0 65536 2 (- 1)) one_frame_world
       (Other_Msg Other_Desc) DAQ_VERDICT_BLOCK
     = Inr (DAQ_ERROR, after_first_message passive_context 0 65536 2 (- 1), one_frame_world)"
    by (rule msg_finalize_foreign) simp_all
  show "afpacket_daq_msg_finalize passive_context one_frame_world Curr_Msg DAQ_VERDICT_PASS
     = Inr (DAQ_ERROR, passive_context, one_frame_world)"
    by (rule msg_finalize_foreign)
       (simp_all add: msg_desc_def passive_context_def zero_context_def)
qed

end
